theory Spec2Isabelle
  imports Main "HOL-Library.Word" "HOL-Library.AList"
begin

section \<open>Values of the settings tree\<close>

text \<open>
  A Go \<open>interface{}\<close> value as it occurs in the configuration tree, one constructor per
  dynamic type the code distinguishes in a type switch or a type assertion. \<open>ANil\<close> is
  the nil interface. A Go map is an association list read with \<open>map_of\<close>; the order of
  the list stands for the order in which a \<open>range\<close> over the map visits its entries
  (Go leaves that order open). \<open>int\<close>, \<open>int64\<close> and \<open>time.Duration\<close> carry their
  numeric value, \<open>float64\<close> its 64 bits, \<open>time.Time\<close> the offset from the zero time, so
  that \<open>time.Time{}\<close> is \<open>ATime 0\<close>.
\<close>

datatype any =
    ANil
  | AString string
  | AInt int
  | AInt64 int
  | ABool bool
  | AFloat64 "64 word"
  | ATime int
  | ADuration int
  | ASlice "any list"
  | AStringSlice "string list"
  | AStringMap "(string \<times> any) list"
  | AStringMapString "(string \<times> string) list"
  | AAnyMap "(any \<times> any) list"

type_synonym settings = "(string \<times> any) list"

section \<open>Library functions of Go used by the code\<close>

text \<open>\<open>strings.Split(s, ".")\<close>: the pieces between the dots, \<open>[""]\<close> for the empty string.\<close>

fun Split :: "string \<Rightarrow> string list" where
  "Split [] = [[]]"
| "Split (c # cs) =
     (if c = CHR ''.'' then [] # Split cs
      else (case Split cs of [] \<Rightarrow> [[c]] | p # ps \<Rightarrow> (c # p) # ps))"

text \<open>\<open>strings.SplitN(s, ".", 2)\<close>: at most two pieces, cut at the first dot.\<close>

fun SplitN2 :: "string \<Rightarrow> string list" where
  "SplitN2 [] = [[]]"
| "SplitN2 (c # cs) =
     (if c = CHR ''.'' then [[], cs]
      else (case SplitN2 cs of [] \<Rightarrow> [[c]] | p # ps \<Rightarrow> (c # p) # ps))"

definition Contains_dot :: "string \<Rightarrow> bool" where
  "Contains_dot s = (CHR ''.'' \<in> set s)"

text \<open>
  \<open>strings.ToLower\<close> on the ASCII letters; bytes outside \<open>A\<close>..\<open>Z\<close> are kept. (Go also
  lowers the upper-case letters of other scripts; no theorem below depends on which
  letters are lowered.)
\<close>

definition to_lower_char :: "char \<Rightarrow> char" where
  "to_lower_char c =
     (let n = (of_char c :: nat) in if 65 \<le> n \<and> n \<le> 90 then char_of (n + 32) else c)"

definition ToLower :: "string \<Rightarrow> string" where
  "ToLower s = map to_lower_char s"

text \<open>
  \<open>strconv.Atoi\<close>: an optional sign, then one or more decimal digits and nothing else;
  a value outside the 64-bit \<open>int\<close> is an error. \<open>None\<close> is the error return.
\<close>

definition is_digit :: "char \<Rightarrow> bool" where
  "is_digit c = (let n = (of_char c :: nat) in 48 \<le> n \<and> n \<le> 57)"

definition digits_value :: "string \<Rightarrow> int" where
  "digits_value ds = foldl (\<lambda>n c. n * 10 + ((of_char c :: int) - 48)) 0 ds"

definition Atoi :: "string \<Rightarrow> int option" where
  "Atoi s =
     (let (neg, ds) =
        (case s of
           [] \<Rightarrow> (False, s)
         | c # r \<Rightarrow> if c = CHR ''-'' then (True, r)
                    else if c = CHR ''+'' then (False, r) else (False, s))
      in if ds = [] \<or> \<not> list_all is_digit ds then None
         else let n = digits_value ds; v = (if neg then - n else n)
              in if v < - (2 ^ 63) \<or> 2 ^ 63 - 1 < v then None else Some v)"

text \<open>
  Indexing a slice, \<open>v[index]\<close>: Go panics when the index is out of range. \<open>None\<close> is the
  panic, here and in every function below that returns an \<open>option\<close>.
\<close>

definition slice_index :: "'a list \<Rightarrow> int \<Rightarrow> 'a option" where
  "slice_index v i = (if 0 \<le> i \<and> i < int (length v) then Some (v ! nat i) else None)"

text \<open>Reading a map, \<open>v[part]\<close>: the zero value (nil) for a missing key.\<close>

definition map_index :: "('k \<times> any) list \<Rightarrow> 'k \<Rightarrow> any" where
  "map_index v k = (case map_of v k of None \<Rightarrow> ANil | Some x \<Rightarrow> x)"

section \<open>Path resolution (config.go)\<close>

text \<open>
  The loop of \<open>traverseNestedMap\<close> over the parts of the path; the first argument is
  \<open>current\<close>. The type switch is the \<open>case\<close>, each \<open>return nil\<close> is \<open>Some ANil\<close>, and the
  test \<open>current == nil\<close> after the switch ends the walk.
\<close>

fun traverse_parts :: "any \<Rightarrow> string list \<Rightarrow> any option" where
  "traverse_parts current [] = Some current"
| "traverse_parts current (part # rest) =
     (case current of
        AStringMap v \<Rightarrow>
          (let c = map_index v part in if c = ANil then Some ANil else traverse_parts c rest)
      | AStringMapString v \<Rightarrow>
          (case map_of v part of
             Some val \<Rightarrow> traverse_parts (AString val) rest
           | None \<Rightarrow> Some ANil)
      | ASlice v \<Rightarrow>
          (case Atoi part of
             None \<Rightarrow> Some ANil
           | Some index \<Rightarrow>
               if index < 0 \<or> index \<ge> int (length v) then Some ANil
               else (case slice_index v index of
                       None \<Rightarrow> None
                     | Some c \<Rightarrow> if c = ANil then Some ANil else traverse_parts c rest))
      | AStringSlice v \<Rightarrow>
          (case Atoi part of
             None \<Rightarrow> Some ANil
           | Some index \<Rightarrow>
               if index < 0 \<or> index \<ge> int (length v) then Some ANil
               else (case slice_index v index of
                       None \<Rightarrow> None
                     | Some s \<Rightarrow> traverse_parts (AString s) rest))
      | AAnyMap v \<Rightarrow>
          (let c = map_index v (AString part)
           in if c = ANil then Some ANil else traverse_parts c rest)
      | _ \<Rightarrow> Some ANil)"

definition traverseNestedMap :: "settings \<Rightarrow> string \<Rightarrow> any option" where
  "traverseNestedMap settings path = traverse_parts (AStringMap settings) (Split path)"

text \<open>
  The case-insensitive scan of \<open>traverseNestedMapCaseInsensitive\<close>: the \<open>range\<close> over the
  map stops at the first key whose lower-cased form equals the lower-cased part.
\<close>

definition ci_scan :: "(string \<times> 'a) list \<Rightarrow> string \<Rightarrow> 'a option" where
  "ci_scan v part =
     (let lowerPart = ToLower part
      in map_option snd (find (\<lambda>(k, val). ToLower k = lowerPart) v))"

definition ci_scan_any :: "(any \<times> any) list \<Rightarrow> string \<Rightarrow> any option" where
  "ci_scan_any v part =
     (let lowerPart = ToLower part
      in map_option snd
           (find (\<lambda>(k, val). case k of AString kStr \<Rightarrow> ToLower kStr = lowerPart | _ \<Rightarrow> False) v))"

fun traverse_parts_ci :: "any \<Rightarrow> string list \<Rightarrow> any option" where
  "traverse_parts_ci current [] = Some current"
| "traverse_parts_ci current (part # rest) =
     (case current of
        AStringMap v \<Rightarrow>
          (case map_of v part of
             Some val \<Rightarrow> if val = ANil then Some ANil else traverse_parts_ci val rest
           | None \<Rightarrow>
               (case ci_scan v part of
                  None \<Rightarrow> Some ANil
                | Some val \<Rightarrow> if val = ANil then Some ANil else traverse_parts_ci val rest))
      | AStringMapString v \<Rightarrow>
          (case map_of v part of
             Some val \<Rightarrow> traverse_parts_ci (AString val) rest
           | None \<Rightarrow>
               (case ci_scan v part of
                  None \<Rightarrow> Some ANil
                | Some val \<Rightarrow> traverse_parts_ci (AString val) rest))
      | ASlice v \<Rightarrow>
          (case Atoi part of
             None \<Rightarrow> Some ANil
           | Some index \<Rightarrow>
               if index < 0 \<or> index \<ge> int (length v) then Some ANil
               else (case slice_index v index of
                       None \<Rightarrow> None
                     | Some c \<Rightarrow> if c = ANil then Some ANil else traverse_parts_ci c rest))
      | AStringSlice v \<Rightarrow>
          (case Atoi part of
             None \<Rightarrow> Some ANil
           | Some index \<Rightarrow>
               if index < 0 \<or> index \<ge> int (length v) then Some ANil
               else (case slice_index v index of
                       None \<Rightarrow> None
                     | Some s \<Rightarrow> traverse_parts_ci (AString s) rest))
      | AAnyMap v \<Rightarrow>
          (case map_of v (AString part) of
             Some val \<Rightarrow> if val = ANil then Some ANil else traverse_parts_ci val rest
           | None \<Rightarrow>
               (case ci_scan_any v part of
                  None \<Rightarrow> Some ANil
                | Some val \<Rightarrow> if val = ANil then Some ANil else traverse_parts_ci val rest))
      | _ \<Rightarrow> Some ANil)"

definition traverseNestedMapCaseInsensitive :: "settings \<Rightarrow> string \<Rightarrow> any option" where
  "traverseNestedMapCaseInsensitive settings path =
     traverse_parts_ci (AStringMap settings) (Split path)"

section \<open>The viper wrapper (config.go)\<close>

text \<open>
  The methods of \<open>*viper.Viper\<close> that \<open>Config\<close> calls on its \<open>viper\<close> field when it
  reads. Viper is a library outside the repository, so these are parameters of the model.
\<close>

record viper =
  vGet :: "string \<Rightarrow> any"
  vGetString :: "string \<Rightarrow> string"
  vGetBool :: "string \<Rightarrow> bool"
  vGetInt :: "string \<Rightarrow> int"
  vGetInt64 :: "string \<Rightarrow> int"
  vGetFloat64 :: "string \<Rightarrow> 64 word"
  vGetTime :: "string \<Rightarrow> int"
  vGetDuration :: "string \<Rightarrow> int"
  vGetStringSlice :: "string \<Rightarrow> string list"
  vGetStringMap :: "string \<Rightarrow> (string \<times> any) list"
  vGetStringMapString :: "string \<Rightarrow> (string \<times> string) list"

text \<open>
  The fallback of \<open>Config.Get\<close> below a top-level value: taken only when the value is not
  nil and \<open>parts\<close> has a second element, and only into a \<open>map[string]interface{}\<close>;
  otherwise \<open>value\<close> stays as it was.
\<close>

definition descend ::
  "(settings \<Rightarrow> string \<Rightarrow> any option) \<Rightarrow> any \<Rightarrow> string list \<Rightarrow> any \<Rightarrow> any option" where
  "descend traverse topLevelValue parts value =
     (if topLevelValue \<noteq> ANil \<and> length parts > 1 then
        (case topLevelValue of
           AStringMap m \<Rightarrow>
             (case slice_index parts 1 of None \<Rightarrow> None | Some p \<Rightarrow> traverse m p)
         | _ \<Rightarrow> Some value)
      else Some value)"

definition Get :: "viper \<Rightarrow> string \<Rightarrow> any option" where
  "Get c key =
     (let value = vGet c key
      in if value = ANil \<and> Contains_dot key then
           (let parts = SplitN2 key
            in case slice_index parts 0 of
                 None \<Rightarrow> None
               | Some topLevelKey \<Rightarrow>
                   (case descend traverseNestedMap (vGet c topLevelKey) parts value of
                      None \<Rightarrow> None
                    | Some value1 \<Rightarrow>
                        if value1 = ANil then
                          (let lowercaseTopLevelKey = ToLower topLevelKey
                           in if lowercaseTopLevelKey \<noteq> topLevelKey then
                                descend traverseNestedMapCaseInsensitive
                                  (vGet c lowercaseTopLevelKey) parts value1
                              else
                                descend traverseNestedMapCaseInsensitive
                                  (vGet c topLevelKey) parts value1)
                        else Some value1))
         else Some value)"

text \<open>
  \<open>getTypedValue\<close>; \<open>typeCheck\<close> returns the pair of a Go type assertion with \<open>ok\<close>.
\<close>

definition getTypedValue ::
  "viper \<Rightarrow> string \<Rightarrow> any \<Rightarrow> (any \<Rightarrow> any \<times> bool) \<Rightarrow> (string \<Rightarrow> any) \<Rightarrow> any option" where
  "getTypedValue c key defaultValue typeCheck viperGet =
     (case Get c key of
        None \<Rightarrow> None
      | Some value \<Rightarrow>
          if value = ANil then Some defaultValue
          else (case typeCheck value of
                  (converted, True) \<Rightarrow> Some converted
                | (_, False) \<Rightarrow> Some (viperGet key)))"

text \<open>
  The typed getters. The last step of each, \<open>result.(T)\<close>, panics when \<open>result\<close> holds
  another type. A nil slice or map is the empty list.
\<close>

definition GetString :: "viper \<Rightarrow> string \<Rightarrow> string option" where
  "GetString c key =
     (case getTypedValue c key (AString [])
             (\<lambda>v. case v of AString str \<Rightarrow> (AString str, True) | _ \<Rightarrow> (AString [], False))
             (\<lambda>k. AString (vGetString c k)) of
        Some (AString s) \<Rightarrow> Some s
      | _ \<Rightarrow> None)"

definition GetBool :: "viper \<Rightarrow> string \<Rightarrow> bool option" where
  "GetBool c key =
     (case getTypedValue c key (ABool False)
             (\<lambda>v. case v of ABool b \<Rightarrow> (ABool b, True) | _ \<Rightarrow> (ABool False, False))
             (\<lambda>k. ABool (vGetBool c k)) of
        Some (ABool b) \<Rightarrow> Some b
      | _ \<Rightarrow> None)"

definition GetInt :: "viper \<Rightarrow> string \<Rightarrow> int option" where
  "GetInt c key =
     (case getTypedValue c key (AInt 0)
             (\<lambda>v. case v of AInt i \<Rightarrow> (AInt i, True) | _ \<Rightarrow> (AInt 0, False))
             (\<lambda>k. AInt (vGetInt c k)) of
        Some (AInt i) \<Rightarrow> Some i
      | _ \<Rightarrow> None)"

definition GetInt64 :: "viper \<Rightarrow> string \<Rightarrow> int option" where
  "GetInt64 c key =
     (case getTypedValue c key (AInt64 0)
             (\<lambda>v. case v of AInt64 i \<Rightarrow> (AInt64 i, True) | _ \<Rightarrow> (AInt64 0, False))
             (\<lambda>k. AInt64 (vGetInt64 c k)) of
        Some (AInt64 i) \<Rightarrow> Some i
      | _ \<Rightarrow> None)"

definition GetFloat64 :: "viper \<Rightarrow> string \<Rightarrow> 64 word option" where
  "GetFloat64 c key =
     (case getTypedValue c key (AFloat64 0)
             (\<lambda>v. case v of AFloat64 f \<Rightarrow> (AFloat64 f, True) | _ \<Rightarrow> (AFloat64 0, False))
             (\<lambda>k. AFloat64 (vGetFloat64 c k)) of
        Some (AFloat64 f) \<Rightarrow> Some f
      | _ \<Rightarrow> None)"

definition GetTime :: "viper \<Rightarrow> string \<Rightarrow> int option" where
  "GetTime c key =
     (case getTypedValue c key (ATime 0)
             (\<lambda>v. case v of ATime t \<Rightarrow> (ATime t, True) | _ \<Rightarrow> (ATime 0, False))
             (\<lambda>k. ATime (vGetTime c k)) of
        Some (ATime t) \<Rightarrow> Some t
      | _ \<Rightarrow> None)"

definition GetDuration :: "viper \<Rightarrow> string \<Rightarrow> int option" where
  "GetDuration c key =
     (case getTypedValue c key (ADuration 0)
             (\<lambda>v. case v of ADuration d \<Rightarrow> (ADuration d, True) | _ \<Rightarrow> (ADuration 0, False))
             (\<lambda>k. ADuration (vGetDuration c k)) of
        Some (ADuration d) \<Rightarrow> Some d
      | _ \<Rightarrow> None)"

definition GetStringSlice :: "viper \<Rightarrow> string \<Rightarrow> string list option" where
  "GetStringSlice c key =
     (case getTypedValue c key (AStringSlice [])
             (\<lambda>v. case v of AStringSlice sl \<Rightarrow> (AStringSlice sl, True)
                   | _ \<Rightarrow> (AStringSlice [], False))
             (\<lambda>k. AStringSlice (vGetStringSlice c k)) of
        Some (AStringSlice sl) \<Rightarrow> Some sl
      | _ \<Rightarrow> None)"

definition GetStringMap :: "viper \<Rightarrow> string \<Rightarrow> (string \<times> any) list option" where
  "GetStringMap c key =
     (case getTypedValue c key (AStringMap [])
             (\<lambda>v. case v of AStringMap m \<Rightarrow> (AStringMap m, True) | _ \<Rightarrow> (AStringMap [], False))
             (\<lambda>k. AStringMap (vGetStringMap c k)) of
        Some (AStringMap m) \<Rightarrow> Some m
      | _ \<Rightarrow> None)"

definition GetStringMapString :: "viper \<Rightarrow> string \<Rightarrow> (string \<times> string) list option" where
  "GetStringMapString c key =
     (case getTypedValue c key (AStringMapString [])
             (\<lambda>v. case v of AStringMapString m \<Rightarrow> (AStringMapString m, True)
                   | _ \<Rightarrow> (AStringMapString [], False))
             (\<lambda>k. AStringMapString (vGetStringMapString c k)) of
        Some (AStringMapString m) \<Rightarrow> Some m
      | _ \<Rightarrow> None)"

text \<open>
  The five dynamic types that the type switch of the two traversals navigates into; every
  other value, nil included, falls to \<open>default\<close>.
\<close>

definition is_container :: "any \<Rightarrow> bool" where
  "is_container current =
     (case current of
        AStringMap _ \<Rightarrow> True | AStringMapString _ \<Rightarrow> True | ASlice _ \<Rightarrow> True
      | AStringSlice _ \<Rightarrow> True | AAnyMap _ \<Rightarrow> True | _ \<Rightarrow> False)"

section \<open>Errors (errors/config.go and the file loader's sentinels)\<close>

text \<open>
  A Go \<open>error\<close>: the sentinels the repository declares, an error handed up by a
  collaborator (the operating system, the parser), and \<open>fmt.Errorf\<close> with its format string
  and the errors it wraps; the other arguments of the format are left out.
\<close>

datatype error =
    ErrKeyNotFound
  | ErrWrongType
  | ErrUnknownType
  | ErrBackendProviderHasNoConfig
  | ErrReadConfigFileFailed
  | ErrFailedReadDirectory
  | External string
  | Errorf string "error list"

section \<open>Key types (contract/config.go)\<close>

definition KeyTypes :: "string list" where
  "KeyTypes =
     [''int'', ''int32'', ''int64'', ''uint'', ''uint32'', ''uint64'', ''float32'', ''float64'',
      ''string'', ''bool'', ''[]string'', ''map'', ''time'', ''duration'', ''bytes'', ''uuid'',
      ''url'']"

definition KeyType_Int :: string where "KeyType_Int = ''int''"
definition KeyType_String :: string where "KeyType_String = ''string''"
definition KeyType_Bool :: string where "KeyType_Bool = ''bool''"

section \<open>The typed accessor\<close>

text \<open>
  Modelled from the spec: the getter snapshot and \<open>NewGetter\<close> (config/getter.go is not
  among the sources; \<open>Config.Get\<close> and \<open>Config.Has\<close> only forward to the getter). The
  snapshot is an immutable settings tree captured at one point in time.
\<close>

record Getter =
  data :: settings

definition NewGetter :: "settings \<Rightarrow> Getter" where
  "NewGetter s = \<lparr>data = s\<rparr>"

text \<open>
  Modelled from the spec: the conversions of the typed accessor (config/getter.go is not
  among the sources). The spec fixes them by examples only, so they are parameters:
  \<open>direct typ v\<close> is the direct type assertion and \<open>coerce typ v\<close> the best-effort
  coercion of \<open>v\<close> to the type tagged \<open>typ\<close>.
\<close>

record conversions =
  direct :: "string \<Rightarrow> any \<Rightarrow> any option"
  coerce :: "string \<Rightarrow> any \<Rightarrow> any option"

text \<open>
  Modelled from the spec: the resolver of the getter (config/getter.go is not among the
  sources). The spec's resolver looks a mapping up by exact match and then by the
  case-insensitive scan, and a sequence by index, which is what
  \<open>traverseNestedMapCaseInsensitive\<close> computes.
\<close>

definition Getter_resolve :: "Getter \<Rightarrow> string \<Rightarrow> any option" where
  "Getter_resolve g key = traverseNestedMapCaseInsensitive (data g) key"

text \<open>
  Modelled from the spec: \<open>Getter.Get\<close> (config/getter.go is not among the sources). It
  resolves the path; not found is \<open>KeyNotFound\<close>; a found value is first tried by direct
  type assertion to the requested type, then by best-effort coercion, and \<open>WrongType\<close> is
  the error when both fail; a type tag outside the declared ones is \<open>UnknownType\<close>.
\<close>

definition Getter_Get ::
  "conversions \<Rightarrow> Getter \<Rightarrow> string \<Rightarrow> string \<Rightarrow> (error + any) option" where
  "Getter_Get cv g key typ =
     (case Getter_resolve g key of
        None \<Rightarrow> None
      | Some v \<Rightarrow>
          Some (if v = ANil then Inl ErrKeyNotFound
                else if typ \<notin> set KeyTypes then Inl ErrUnknownType
                else (case direct cv typ v of
                        Some r \<Rightarrow> Inr r
                      | None \<Rightarrow>
                          (case coerce cv typ v of
                             Some r \<Rightarrow> Inr r
                           | None \<Rightarrow> Inl ErrWrongType))))"

text \<open>
  Modelled from the spec: \<open>Getter.HasKey\<close> (config/getter.go is not among the sources):
  \<open>has\<close> is resolve-only, with no coercion and no error.
\<close>

definition Getter_HasKey :: "Getter \<Rightarrow> string \<Rightarrow> bool option" where
  "Getter_HasKey g key = map_option (\<lambda>v. v \<noteq> ANil) (Getter_resolve g key)"

text \<open>
  Modelled from the spec: the conversions that the spec's examples and the test
  \<open>TestConfig_Get\<close> fix for \<open>int\<close>, \<open>string\<close> and \<open>bool\<close>: a stored value of the
  requested type is returned as it is, and a numeric string coerces to \<open>int\<close>
  (\<open>strconv.Atoi\<close>). The conversions of the other tags are not part of this instance.
\<close>

definition example_conversions :: conversions where
  "example_conversions =
     \<lparr>direct = (\<lambda>typ v.
        if typ = KeyType_Int then (case v of AInt _ \<Rightarrow> Some v | _ \<Rightarrow> None)
        else if typ = KeyType_String then (case v of AString _ \<Rightarrow> Some v | _ \<Rightarrow> None)
        else if typ = KeyType_Bool then (case v of ABool _ \<Rightarrow> Some v | _ \<Rightarrow> None)
        else None),
      coerce = (\<lambda>typ v.
        if typ = KeyType_Int then (case v of AString s \<Rightarrow> map_option AInt (Atoi s) | _ \<Rightarrow> None)
        else None)\<rparr>"

section \<open>The merge engine\<close>

text \<open>
  Modelled from the spec: \<open>MergeConfigMap\<close> of the provider (provider/viper is not among
  the sources; the loaders only call it). For each key of \<open>incoming\<close>: when both
  \<open>base[key]\<close> and \<open>incoming[key]\<close> are mappings they are merged recursively; otherwise
  \<open>incoming[key]\<close> replaces \<open>base[key]\<close> entirely. Keys are compared as they are.
\<close>

fun merge_value :: "any option \<Rightarrow> any \<Rightarrow> any"
  and merge :: "settings \<Rightarrow> settings \<Rightarrow> settings" where
  "merge_value (Some (AStringMap b)) (AStringMap i) = AStringMap (merge b i)"
| "merge_value _ inc = inc"
| "merge base [] = base"
| "merge base ((key, inc) # incoming) =
     merge (AList.update key (merge_value (map_of base key) inc) base) incoming"

section \<open>Files and directories\<close>

text \<open>
  \<open>filepath.Ext\<close>: the suffix from the last dot of the last path element, empty without
  one. \<open>filepath.Join\<close> of a directory and a file name, for a directory path that is
  already clean.
\<close>

definition Ext :: "string \<Rightarrow> string" where
  "Ext path =
     (let r = rev path;
          suf = takeWhile (\<lambda>c. c \<noteq> CHR ''.'' \<and> c \<noteq> CHR ''/'') r
      in case drop (length suf) r of
           [] \<Rightarrow> []
         | c # _ \<Rightarrow> if c = CHR ''.'' then c # rev suf else [])"

definition Join :: "string \<Rightarrow> string \<Rightarrow> string" where
  "Join dir name =
     (if dir = [] then name
      else if last dir = CHR ''/'' then dir @ name
      else dir @ ''/'' @ name)"

text \<open>
  What the operating system and the parser hand to the loaders: \<open>ReadDir\<close> lists a
  directory as names with their \<open>IsDir\<close> flag, sorted by name, or fails; \<open>loadFile\<close> is a
  fresh viper instance or provider pointed at a path, read and asked for \<open>AllSettings\<close>.
\<close>

record os =
  ReadDir :: "string \<Rightarrow> error + (string \<times> bool) list"
  loadFile :: "string \<Rightarrow> error + settings"

section \<open>The provider interface (contract.Provider)\<close>

text \<open>
  The methods of \<open>contract.Provider\<close> that the file loader and the service call. The
  provider is an interface: its methods are parameters of the model, acting on a provider
  state \<open>'p\<close>.
\<close>

record 'p provider_ops =
  SetConfigFile :: "string \<Rightarrow> 'p \<Rightarrow> 'p"
  ReadInConfig :: "'p \<Rightarrow> 'p \<times> error option"
  AllSettings :: "'p \<Rightarrow> settings"
  MergeConfigMap :: "settings \<Rightarrow> 'p \<Rightarrow> 'p \<times> error option"

text \<open>
  Modelled from the spec: the provider of provider/viper (not among the sources). It holds
  the configured file and the authoritative settings tree; \<open>ReadInConfig\<close> re-reads the
  configured file through the loader contract \<open>loadFile(path) -> SettingsTree | error\<close> and
  makes its tree the authoritative one, leaving the state as it was on an error;
  \<open>MergeConfigMap\<close> is the merge engine.
\<close>

record tree_provider =
  config_file :: string
  config_tree :: settings

definition tree_provider_ops :: "os \<Rightarrow> tree_provider provider_ops" where
  "tree_provider_ops sys =
     \<lparr>SetConfigFile = (\<lambda>path p. p\<lparr>config_file := path\<rparr>),
      ReadInConfig = (\<lambda>p. case loadFile sys (config_file p) of
                              Inl err \<Rightarrow> (p, Some err)
                            | Inr t \<Rightarrow> (p\<lparr>config_tree := t\<rparr>, None)),
      AllSettings = config_tree,
      MergeConfigMap = (\<lambda>m p. (p\<lparr>config_tree := merge (config_tree p) m\<rparr>, None))\<rparr>"

text \<open>
  A provider that only records the calls made on it, each succeeding: the interface as the
  loader sees it.
\<close>

datatype provider_call =
    Call_SetConfigFile string
  | Call_ReadInConfig
  | Call_MergeConfigMap settings

definition recording_ops :: "provider_call list provider_ops" where
  "recording_ops =
     \<lparr>SetConfigFile = (\<lambda>path log. log @ [Call_SetConfigFile path]),
      ReadInConfig = (\<lambda>log. (log @ [Call_ReadInConfig], None)),
      AllSettings = (\<lambda>log. []),
      MergeConfigMap = (\<lambda>m log. (log @ [Call_MergeConfigMap m], None))\<rparr>"

section \<open>The file loader (loader/file)\<close>

text \<open>
  Modelled from the spec: \<open>utils.IsSupportedConfigFile\<close> (the package utils is not among the
  sources): the supported extensions are \<open>.yaml\<close>, \<open>.yml\<close> and \<open>.json\<close>, the constants
  \<open>ExtYAML\<close>, \<open>ExtYML\<close> and \<open>ExtJSON\<close> of contract/config.go.
\<close>

definition IsSupportedConfigFile :: "string \<Rightarrow> bool" where
  "IsSupportedConfigFile name = (Ext name \<in> {''.yaml'', ''.yml'', ''.json''})"

text \<open>
  \<open>Loader.mergeConfigFile\<close>: the temporary provider reads the file, and its settings go
  to \<open>MergeConfigMap\<close> of the loader's provider as they are.
\<close>

definition mergeConfigFile ::
  "'p provider_ops \<Rightarrow> os \<Rightarrow> string \<Rightarrow> 'p \<Rightarrow> 'p \<times> error option" where
  "mergeConfigFile ops sys configFile p =
     (case loadFile sys configFile of
        Inl err \<Rightarrow> (p, Some (Errorf ''failed to read config file for merging: %w'' [err]))
      | Inr configMap \<Rightarrow>
          (case MergeConfigMap ops configMap p of
             (p', Some err) \<Rightarrow> (p', Some (Errorf ''failed to merge configuration map: %w'' [err]))
           | (p', None) \<Rightarrow> (p', None)))"

text \<open>The loop of \<open>Loader.LoadFromDirectory\<close> over \<open>configFiles\<close>, with its flag \<open>isFirst\<close>.\<close>

fun load_config_files ::
  "'p provider_ops \<Rightarrow> os \<Rightarrow> string \<Rightarrow> string list \<Rightarrow> bool \<Rightarrow> 'p \<Rightarrow> 'p \<times> error option" where
  "load_config_files ops sys dir [] isFirst p = (p, None)"
| "load_config_files ops sys dir (fileName # rest) isFirst p =
     (let path = Join dir fileName
      in if isFirst then
           (case ReadInConfig ops (SetConfigFile ops path p) of
              (p', Some err) \<Rightarrow>
                (p', Some (Errorf ''failed to load initial config file %s: %w'' [err]))
            | (p', None) \<Rightarrow> load_config_files ops sys dir rest False p')
         else
           (case mergeConfigFile ops sys path p of
              (p', Some err) \<Rightarrow> (p', Some (Errorf ''failed to merge config file %s: %w'' [err]))
            | (p', None) \<Rightarrow> load_config_files ops sys dir rest isFirst p'))"

text \<open>\<open>Loader.LoadFromDirectory\<close>; the loader's provider field may be nil.\<close>

definition Loader_LoadFromDirectory ::
  "'p provider_ops \<Rightarrow> os \<Rightarrow> 'p option \<Rightarrow> string \<Rightarrow> 'p option \<times> error option" where
  "Loader_LoadFromDirectory ops sys provider dir =
     (case provider of
        None \<Rightarrow> (None, Some ErrBackendProviderHasNoConfig)
      | Some p \<Rightarrow>
          (case ReadDir sys dir of
             Inl err \<Rightarrow> (Some p, Some (Errorf ''%w: %w'' [ErrFailedReadDirectory, err]))
           | Inr files \<Rightarrow>
               (let configFiles =
                      map fst (filter (\<lambda>(name, isDir). \<not> (isDir \<or> \<not> IsSupportedConfigFile name))
                                 files)
                in if length configFiles = 0 then (Some p, None)
                   else (case load_config_files ops sys dir configFiles True p of
                           (p', err) \<Rightarrow> (Some p', err)))))"

section \<open>The directory load of the viper wrapper (config.go)\<close>

text \<open>
  The directory as \<open>os.ReadDir\<close> and the per-file viper instances show it: a directory is
  unreadable or lists its entries in name order; a file carries what \<open>ReadInConfig\<close> and
  \<open>AllSettings\<close> of a fresh viper instance give for it.
\<close>

datatype fsentry =
    FFile string "error + settings"
  | FDir string fsdir
and fsdir =
    Unreadable error
  | Readable "fsentry list"

text \<open>
  \<open>loadFromDirectoryWithPrefixAndOptions\<close> and its loop over the entries. \<open>vmerge\<close> is
  \<open>MergeConfigMap\<close> of the wrapped viper instance, whose state is \<open>'v\<close>; \<open>errs\<close> is the
  slice \<open>errors\<close>.
\<close>

fun loadFromDirectoryWithPrefixAndOptions ::
    "(settings \<Rightarrow> 'v \<Rightarrow> 'v \<times> error option) \<Rightarrow> fsdir \<Rightarrow> string \<Rightarrow> bool \<Rightarrow> 'v
       \<Rightarrow> 'v \<times> error list"
  and load_entries ::
    "(settings \<Rightarrow> 'v \<Rightarrow> 'v \<times> error option) \<Rightarrow> fsentry list \<Rightarrow> string \<Rightarrow> bool
       \<Rightarrow> error list \<Rightarrow> 'v \<Rightarrow> 'v \<times> error list" where
  "loadFromDirectoryWithPrefixAndOptions vmerge (Unreadable err) prefix continueOnError v =
     (v, [Errorf ''failed to read directory: %w'' [err]])"
| "loadFromDirectoryWithPrefixAndOptions vmerge (Readable entries) prefix continueOnError v =
     load_entries vmerge entries prefix continueOnError [] v"
| "load_entries vmerge [] prefix continueOnError errs v = (v, errs)"
| "load_entries vmerge (FDir subDirName sub # rest) prefix continueOnError errs v =
     (let subDirPrefix = (if prefix = [] then subDirName else prefix @ ''.'' @ subDirName)
      in case loadFromDirectoryWithPrefixAndOptions vmerge sub subDirPrefix continueOnError v of
           (v', subErrors) \<Rightarrow>
             if length subErrors > 0 then
               (if continueOnError
                then load_entries vmerge rest prefix continueOnError (errs @ subErrors) v'
                else (v', subErrors))
             else load_entries vmerge rest prefix continueOnError errs v')"
| "load_entries vmerge (FFile filename content # rest) prefix continueOnError errs v =
     (let ext = Ext filename
      in if ext \<noteq> ''.yaml'' \<and> ext \<noteq> ''.yml'' \<and> ext \<noteq> ''.json''
         then load_entries vmerge rest prefix continueOnError errs v
         else
           (let base = take (length filename - length ext) filename;
                namespace = (if prefix \<noteq> [] then prefix @ ''.'' @ base else base)
            in case content of
                 Inl err \<Rightarrow>
                   (let fileErr = Errorf ''failed to read config file %s: %w'' [err]
                    in if continueOnError
                       then load_entries vmerge rest prefix continueOnError (errs @ [fileErr]) v
                       else (v, [fileErr]))
               | Inr settings \<Rightarrow>
                   (let namespacedSettings = [(namespace, AStringMap settings)]
                    in case vmerge namespacedSettings v of
                         (v', Some err) \<Rightarrow>
                           (let mergeErr =
                                  Errorf ''failed to merge config from file %s: %w'' [err]
                            in if continueOnError
                               then load_entries vmerge rest prefix continueOnError
                                      (errs @ [mergeErr]) v'
                               else (v', [mergeErr]))
                       | (v', None) \<Rightarrow>
                           load_entries vmerge rest prefix continueOnError errs v')))"

section \<open>The configuration service (config/config.go)\<close>

text \<open>
  The fields of \<open>Config\<close> that \<open>Get\<close>, \<open>Has\<close>, \<open>Reload\<close> and \<open>Close\<close> touch. The provider
  and the watcher are interface values, held here as their states; \<open>doneClosed\<close> is the channel \<open>done\<close>
  (\<open>True\<close> once closed). The two loaders hold the same provider and have no state of
  their own, and the mutex guards \<open>watchedFiles\<close> only.
\<close>

record ('p, 'w) Config =
  provider :: 'p
  getter :: Getter
  watcher :: "'w option"
  watchedFiles :: "string list"
  doneClosed :: bool

definition Config_Get ::
  "conversions \<Rightarrow> ('p, 'w) Config \<Rightarrow> string \<Rightarrow> string \<Rightarrow> (error + any) option" where
  "Config_Get cv c key typ = Getter_Get cv (getter c) key typ"

definition Config_Has :: "('p, 'w) Config \<Rightarrow> string \<Rightarrow> bool option" where
  "Config_Has c key = Getter_HasKey (getter c) key"

definition Reload ::
  "'p provider_ops \<Rightarrow> ('p, 'w) Config \<Rightarrow> ('p, 'w) Config \<times> error option" where
  "Reload ops c =
     (case ReadInConfig ops (provider c) of
        (p', Some err) \<Rightarrow> (c\<lparr>provider := p'\<rparr>, Some (Errorf ''error reloading config: %w'' [err]))
      | (p', None) \<Rightarrow> (c\<lparr>provider := p', getter := NewGetter (AllSettings ops p')\<rparr>, None))"

text \<open>
  \<open>Close\<close>: closing the channel \<open>done\<close> a second time panics; \<open>wclose\<close> is \<open>Close\<close> of the
  watcher.
\<close>

definition Close ::
  "('w \<Rightarrow> 'w \<times> error option) \<Rightarrow> ('p, 'w) Config \<Rightarrow> (('p, 'w) Config \<times> error option) option" where
  "Close wclose c =
     (if doneClosed c then None
      else (let c1 = c\<lparr>doneClosed := True\<rparr>
            in case watcher c1 of
                 None \<Rightarrow> Some (c1, None)
               | Some w \<Rightarrow>
                   (case wclose w of
                      (w', Some err) \<Rightarrow>
                        Some (c1\<lparr>watcher := Some w'\<rparr>,
                              Some (Errorf ''error closing watcher: %w'' [err]))
                    | (w', None) \<Rightarrow> Some (c1\<lparr>watcher := Some w'\<rparr>, None))))"

text \<open>
  \<open>New\<close>, after the options and the defaults have fixed the provider and the watcher: the
  getter is the snapshot of the provider's settings.
\<close>

definition New :: "'p provider_ops \<Rightarrow> 'p \<Rightarrow> 'w \<Rightarrow> ('p, 'w) Config" where
  "New ops p w =
     \<lparr>provider = p, getter = NewGetter (AllSettings ops p), watcher = Some w,
      watchedFiles = [], doneClosed = False\<rparr>"

section \<open>Reloading a file in the viper wrapper (config.go)\<close>


section \<open>Concrete inputs\<close>

text \<open>A viper instance that holds no key: every read gives the zero value.\<close>

definition blank_viper :: viper where
  "blank_viper =
     \<lparr>vGet = (\<lambda>k. ANil), vGetString = (\<lambda>k. []), vGetBool = (\<lambda>k. False), vGetInt = (\<lambda>k. 0),
      vGetInt64 = (\<lambda>k. 0), vGetFloat64 = (\<lambda>k. 0), vGetTime = (\<lambda>k. 0), vGetDuration = (\<lambda>k. 0),
      vGetStringSlice = (\<lambda>k. []), vGetStringMap = (\<lambda>k. []), vGetStringMapString = (\<lambda>k. [])\<rparr>"

text \<open>A viper instance whose \<open>Get\<close> returns the same value for every key.\<close>

definition holding :: "any \<Rightarrow> viper" where
  "holding v = blank_viper\<lparr>vGet := (\<lambda>k. v)\<rparr>"

text \<open>The tree of the spec's example \<open>list: [10, 20, 30]\<close>.\<close>

definition list_tree :: settings where
  "list_tree = [(''list'', ASlice [AInt 10, AInt 20, AInt 30])]"

text \<open>The settings of the test \<open>TestConfig_Get\<close>.\<close>

definition test_tree :: settings where
  "test_tree =
     [(''str'', AStringMap [(''int'', AString ''420'')]),
      (''my'', AStringMap [(''int'', AInt 123), (''str'', AString ''abc''), (''bool'', ABool True)])]"

text \<open>
  A directory \<open>conf\<close> with the two files of the spec's example: \<open>a.yaml\<close> holding
  \<open>name: "x"\<close> and \<open>b.json\<close> holding \<open>port: 1\<close>.
\<close>

definition example_os :: os where
  "example_os =
     \<lparr>ReadDir = (\<lambda>dir. if dir = ''conf'' then Inr [(''a.yaml'', False), (''b.json'', False)]
                       else Inl (External ''no such directory'')),
      loadFile = (\<lambda>path. if path = ''conf/a.yaml'' then Inr [(''name'', AString ''x'')]
                         else if path = ''conf/b.json'' then Inr [(''port'', AInt 1)]
                         else Inl (External ''no such file''))\<rparr>"

text \<open>An operating system on which no file can be read.\<close>

definition failing_os :: os where
  "failing_os =
     \<lparr>ReadDir = (\<lambda>dir. Inl (External ''no such directory'')),
      loadFile = (\<lambda>path. Inl (External ''unreadable''))\<rparr>"

text \<open>
  A service built by \<open>New\<close> on a provider that is pointed at \<open>conf/a.yaml\<close> and has read
  nothing yet.
\<close>

definition example_service :: "(tree_provider, unit) Config" where
  "example_service =
     New (tree_provider_ops example_os) \<lparr>config_file = ''conf/a.yaml'', config_tree = []\<rparr> ()"

text \<open>A service whose snapshot is the settings of the test \<open>TestConfig_Get\<close>.\<close>

definition test_service :: "(tree_provider, unit) Config" where
  "test_service =
     New (tree_provider_ops failing_os) \<lparr>config_file = [], config_tree = test_tree\<rparr> ()"



section \<open>Path resolution never raises\<close>

lemma traverse_parts_returns: "\<exists>r. traverse_parts current parts = Some r"
proof (induction parts arbitrary: current)
  case Nil
  show ?case by simp
next
  case (Cons part rest)
  show ?case
  proof (cases current)
    case (AStringMap v)
    with Cons show ?thesis by (simp add: Let_def)
  next
    case (AStringMapString v)
    with Cons show ?thesis by (simp split: option.splits)
  next
    case (ASlice v)
    with Cons show ?thesis by (simp add: slice_index_def split: option.splits)
  next
    case (AStringSlice v)
    with Cons show ?thesis by (simp add: slice_index_def split: option.splits)
  next
    case (AAnyMap v)
    with Cons show ?thesis by (simp add: Let_def)
  qed simp_all
qed

lemma traverse_parts_ci_returns: "\<exists>r. traverse_parts_ci current parts = Some r"
proof (induction parts arbitrary: current)
  case Nil
  show ?case by simp
next
  case (Cons part rest)
  show ?case
  proof (cases current)
    case (AStringMap v)
    with Cons show ?thesis by (simp split: option.splits)
  next
    case (AStringMapString v)
    with Cons show ?thesis by (simp split: option.splits)
  next
    case (ASlice v)
    with Cons show ?thesis by (simp add: slice_index_def split: option.splits)
  next
    case (AStringSlice v)
    with Cons show ?thesis by (simp add: slice_index_def split: option.splits)
  next
    case (AAnyMap v)
    with Cons show ?thesis by (simp split: option.splits)
  qed simp_all
qed

lemma not_container_soft:
  "\<not> is_container current \<Longrightarrow> traverse_parts current (part # rest) = Some ANil"
  by (cases current) (simp_all add: is_container_def)

lemma not_container_soft_ci:
  "\<not> is_container current \<Longrightarrow> traverse_parts_ci current (part # rest) = Some ANil"
  by (cases current) (simp_all add: is_container_def)

lemma bad_index_soft:
  assumes "Atoi part = None \<or> (\<exists>i. Atoi part = Some i \<and> (i < 0 \<or> int (length xs) \<le> i))"
  shows "traverse_parts (ASlice xs) (part # rest) = Some ANil"
  using assms by (auto split: option.splits)

lemma bad_index_soft_strings:
  assumes "Atoi part = None \<or> (\<exists>i. Atoi part = Some i \<and> (i < 0 \<or> int (length ss) \<le> i))"
  shows "traverse_parts (AStringSlice ss) (part # rest) = Some ANil"
  using assms by (auto split: option.splits)

lemma good_index:
  assumes "Atoi part = Some i" "0 \<le> i" "i < int (length xs)"
  shows "traverse_parts (ASlice xs) (part # rest) =
           (if xs ! nat i = ANil then Some ANil else traverse_parts (xs ! nat i) rest)"
  using assms by (simp add: slice_index_def)

lemma good_index_strings:
  assumes "Atoi part = Some i" "0 \<le> i" "i < int (length ss)"
  shows "traverse_parts (AStringSlice ss) (part # rest) = traverse_parts (AString (ss ! nat i)) rest"
  using assms by (simp add: slice_index_def)

lemma missing_key_soft:
  "map_of m part = None \<Longrightarrow> traverse_parts (AStringMap m) (part # rest) = Some ANil"
  by (simp add: map_index_def)

text \<open>
  C7. Path resolution is total and never panics: for every settings tree and every path
  both traversals return a value. Where a segment does not fit the shape of the current
  node the result is nil, the not-found result: a node that is not a map or a slice (a
  scalar or nil) with a segment left, a map without the key, a slice with a segment that
  is not a number or is out of range.
\<close>

theorem resolver_total:
  "(\<exists>r. traverseNestedMap settings path = Some r)
   \<and> (\<exists>r. traverseNestedMapCaseInsensitive settings path = Some r)
   \<and> (\<not> is_container current \<longrightarrow> traverse_parts current (part # rest) = Some ANil)
   \<and> (\<not> is_container current \<longrightarrow> traverse_parts_ci current (part # rest) = Some ANil)
   \<and> (map_of m part = None \<longrightarrow> traverse_parts (AStringMap m) (part # rest) = Some ANil)
   \<and> (map_of sm part = None \<longrightarrow> traverse_parts (AStringMapString sm) (part # rest) = Some ANil)
   \<and> (map_of am (AString part) = None \<longrightarrow> traverse_parts (AAnyMap am) (part # rest) = Some ANil)
   \<and> (Atoi part = None \<or> (\<exists>i. Atoi part = Some i \<and> (i < 0 \<or> int (length xs) \<le> i))
        \<longrightarrow> traverse_parts (ASlice xs) (part # rest) = Some ANil)
   \<and> (Atoi part = None \<or> (\<exists>i. Atoi part = Some i \<and> (i < 0 \<or> int (length ss) \<le> i))
        \<longrightarrow> traverse_parts (AStringSlice ss) (part # rest) = Some ANil)"
proof (intro conjI impI)
  show "\<exists>r. traverseNestedMap settings path = Some r"
    unfolding traverseNestedMap_def by (rule traverse_parts_returns)
  show "\<exists>r. traverseNestedMapCaseInsensitive settings path = Some r"
    unfolding traverseNestedMapCaseInsensitive_def by (rule traverse_parts_ci_returns)
  show "traverse_parts current (part # rest) = Some ANil" if "\<not> is_container current"
    using that by (rule not_container_soft)
  show "traverse_parts_ci current (part # rest) = Some ANil" if "\<not> is_container current"
    using that by (rule not_container_soft_ci)
  show "traverse_parts (AStringMap m) (part # rest) = Some ANil" if "map_of m part = None"
    using that by (rule missing_key_soft)
  show "traverse_parts (AStringMapString sm) (part # rest) = Some ANil" if "map_of sm part = None"
    using that by simp
  show "traverse_parts (AAnyMap am) (part # rest) = Some ANil" if "map_of am (AString part) = None"
    using that by (simp add: map_index_def)
  show "traverse_parts (ASlice xs) (part # rest) = Some ANil"
    if "Atoi part = None \<or> (\<exists>i. Atoi part = Some i \<and> (i < 0 \<or> int (length xs) \<le> i))"
    using that by (rule bad_index_soft)
  show "traverse_parts (AStringSlice ss) (part # rest) = Some ANil"
    if "Atoi part = None \<or> (\<exists>i. Atoi part = Some i \<and> (i < 0 \<or> int (length ss) \<le> i))"
    using that by (rule bad_index_soft_strings)
qed

lemma Atoi_x: "Atoi ''x'' = None"
  by (simp add: Atoi_def is_digit_def)

theorem resolver_total_witness:
  "\<not> is_container (AInt 7) \<and> map_of ([] :: settings) ''x'' = None
   \<and> map_of ([] :: (string \<times> string) list) ''x'' = None
   \<and> map_of ([] :: (any \<times> any) list) (AString ''x'') = None
   \<and> Atoi ''x'' = None
   \<and> traverse_parts (AInt 7) [''x'', ''y''] = Some ANil
   \<and> traverse_parts_ci (AInt 7) [''x'', ''y''] = Some ANil
   \<and> traverse_parts (AStringMap []) [''x'', ''y''] = Some ANil
   \<and> traverse_parts (AStringMapString []) [''x'', ''y''] = Some ANil
   \<and> traverse_parts (AAnyMap []) [''x'', ''y''] = Some ANil
   \<and> traverse_parts (ASlice [AInt 1]) [''x'', ''y''] = Some ANil
   \<and> traverse_parts (AStringSlice [''s'']) [''x'', ''y''] = Some ANil"
  using resolver_total [of "[]" "''''" "AInt 7" "''x''" "[''y'']" "[]" "[]" "[]" "[AInt 1]" "[''s'']"]
  by (simp add: is_container_def Atoi_x)

section \<open>Sequences are addressed by index\<close>

lemma good_index_ci:
  assumes "Atoi part = Some i" "0 \<le> i" "i < int (length xs)"
  shows "traverse_parts_ci (ASlice xs) (part # rest) =
           (if xs ! nat i = ANil then Some ANil else traverse_parts_ci (xs ! nat i) rest)"
  using assms by (simp add: slice_index_def)

lemma bad_index_soft_ci:
  assumes "Atoi part = None \<or> (\<exists>i. Atoi part = Some i \<and> (i < 0 \<or> int (length xs) \<le> i))"
  shows "traverse_parts_ci (ASlice xs) (part # rest) = Some ANil"
  using assms by (auto split: option.splits)

lemma Atoi_1: "Atoi ''1'' = Some 1"
  by (simp add: Atoi_def is_digit_def digits_value_def)

lemma Atoi_5: "Atoi ''5'' = Some 5"
  by (simp add: Atoi_def is_digit_def digits_value_def)

lemma Atoi_notanumber: "Atoi ''notanumber'' = None"
  by (simp add: Atoi_def is_digit_def)

lemma Split_list_1: "Split ''list.1'' = [''list'', ''1'']"
  by simp

lemma Split_list_5: "Split ''list.5'' = [''list'', ''5'']"
  by simp

lemma Split_list_notanumber: "Split ''list.notanumber'' = [''list'', ''notanumber'']"
  by simp

lemma Getter_Get_not_found:
  "Getter_resolve g key = Some ANil \<Longrightarrow> Getter_Get cv g key typ = Some (Inl ErrKeyNotFound)"
  by (simp add: Getter_Get_def)

lemma list_tree_1:
  "traverseNestedMap list_tree ''list.1'' = Some (AInt 20)"
  unfolding traverseNestedMap_def Split_list_1 list_tree_def
  by (simp add: map_index_def Atoi_1 slice_index_def)

lemma list_tree_5:
  "traverseNestedMap list_tree ''list.5'' = Some ANil"
  unfolding traverseNestedMap_def Split_list_5 list_tree_def
  by (simp add: map_index_def Atoi_5)

lemma list_tree_notanumber:
  "traverseNestedMap list_tree ''list.notanumber'' = Some ANil"
  unfolding traverseNestedMap_def Split_list_notanumber list_tree_def
  by (simp add: map_index_def Atoi_notanumber)

lemma list_tree_ci_1:
  "Getter_resolve (NewGetter list_tree) ''list.1'' = Some (AInt 20)"
  unfolding Getter_resolve_def NewGetter_def traverseNestedMapCaseInsensitive_def
    Split_list_1 list_tree_def
  by (simp add: Atoi_1 slice_index_def)

lemma list_tree_ci_5:
  "Getter_resolve (NewGetter list_tree) ''list.5'' = Some ANil"
  unfolding Getter_resolve_def NewGetter_def traverseNestedMapCaseInsensitive_def
    Split_list_5 list_tree_def
  by (simp add: Atoi_5)

lemma list_tree_ci_notanumber:
  "Getter_resolve (NewGetter list_tree) ''list.notanumber'' = Some ANil"
  unfolding Getter_resolve_def NewGetter_def traverseNestedMapCaseInsensitive_def
    Split_list_notanumber list_tree_def
  by (simp add: Atoi_notanumber)

lemma int_in_KeyTypes: "KeyType_Int \<in> set KeyTypes"
  by (simp add: KeyType_Int_def KeyTypes_def)

lemma list_tree_get_1:
  "Getter_Get example_conversions (NewGetter list_tree) ''list.1'' KeyType_Int = Some (Inr (AInt 20))"
  using int_in_KeyTypes by (simp add: Getter_Get_def list_tree_ci_1 example_conversions_def)

text \<open>
  C3. In a sequence a segment that \<open>strconv.Atoi\<close> reads as an index \<open>i\<close> within range
  selects the \<open>i\<close>-th element: it is the result when the segment is the last one, and the
  walk goes on from it otherwise; a segment that is not a number or is out of range gives
  nil, the not-found result. This holds for \<open>[]interface{}\<close> and \<open>[]string\<close> and in both
  traversals. For \<open>list: [10, 20, 30]\<close> the path \<open>list.1\<close> resolves to 20 and \<open>list.5\<close>
  and \<open>list.notanumber\<close> to nil; the typed accessor returns 20 for \<open>list.1\<close> as \<open>int\<close> and
  fails with \<open>KeyNotFound\<close> for the other two, as it does whenever resolution gives nil.
\<close>

theorem sequence_index:
  "(Atoi part = Some i \<and> 0 \<le> i \<and> i < int (length xs) \<longrightarrow>
      traverse_parts (ASlice xs) [part] = Some (xs ! nat i)
      \<and> traverse_parts (ASlice xs) (part # rest) =
          (if xs ! nat i = ANil then Some ANil else traverse_parts (xs ! nat i) rest)
      \<and> traverse_parts_ci (ASlice xs) (part # rest) =
          (if xs ! nat i = ANil then Some ANil else traverse_parts_ci (xs ! nat i) rest))
   \<and> (Atoi part = Some i \<and> 0 \<le> i \<and> i < int (length ss) \<longrightarrow>
      traverse_parts (AStringSlice ss) [part] = Some (AString (ss ! nat i)))
   \<and> (Atoi part = None \<or> (\<exists>j. Atoi part = Some j \<and> (j < 0 \<or> int (length xs) \<le> j)) \<longrightarrow>
      traverse_parts (ASlice xs) (part # rest) = Some ANil
      \<and> traverse_parts_ci (ASlice xs) (part # rest) = Some ANil)
   \<and> (Atoi part = None \<or> (\<exists>j. Atoi part = Some j \<and> (j < 0 \<or> int (length ss) \<le> j)) \<longrightarrow>
      traverse_parts (AStringSlice ss) (part # rest) = Some ANil)
   \<and> (Getter_resolve g key = Some ANil \<longrightarrow> Getter_Get cv g key typ = Some (Inl ErrKeyNotFound))
   \<and> traverseNestedMap list_tree ''list.1'' = Some (AInt 20)
   \<and> traverseNestedMap list_tree ''list.5'' = Some ANil
   \<and> traverseNestedMap list_tree ''list.notanumber'' = Some ANil
   \<and> Getter_Get example_conversions (NewGetter list_tree) ''list.1'' KeyType_Int
       = Some (Inr (AInt 20))
   \<and> Getter_Get example_conversions (NewGetter list_tree) ''list.5'' KeyType_Int
       = Some (Inl ErrKeyNotFound)
   \<and> Getter_Get example_conversions (NewGetter list_tree) ''list.notanumber'' KeyType_Int
       = Some (Inl ErrKeyNotFound)"
proof (intro conjI impI)
  assume a: "Atoi part = Some i \<and> 0 \<le> i \<and> i < int (length xs)"
  then have a1: "Atoi part = Some i" and a2: "0 \<le> i" and a3: "i < int (length xs)"
    by simp_all
  show "traverse_parts (ASlice xs) [part] = Some (xs ! nat i)"
    using good_index [OF a1 a2 a3, of "[]"] by simp
  show "traverse_parts (ASlice xs) (part # rest) =
      (if xs ! nat i = ANil then Some ANil else traverse_parts (xs ! nat i) rest)"
    using a1 a2 a3 by (rule good_index)
  show "traverse_parts_ci (ASlice xs) (part # rest) =
      (if xs ! nat i = ANil then Some ANil else traverse_parts_ci (xs ! nat i) rest)"
    using a1 a2 a3 by (rule good_index_ci)
next
  assume s: "Atoi part = Some i \<and> 0 \<le> i \<and> i < int (length ss)"
  then have s1: "Atoi part = Some i" and s2: "0 \<le> i" and s3: "i < int (length ss)"
    by simp_all
  show "traverse_parts (AStringSlice ss) [part] = Some (AString (ss ! nat i))"
    using good_index_strings [OF s1 s2 s3, of "[]"] by simp
next
  assume b: "Atoi part = None \<or> (\<exists>j. Atoi part = Some j \<and> (j < 0 \<or> int (length xs) \<le> j))"
  then show "traverse_parts (ASlice xs) (part # rest) = Some ANil"
    by (rule bad_index_soft)
  from b show "traverse_parts_ci (ASlice xs) (part # rest) = Some ANil"
    by (rule bad_index_soft_ci)
next
  assume "Atoi part = None \<or> (\<exists>j. Atoi part = Some j \<and> (j < 0 \<or> int (length ss) \<le> j))"
  then show "traverse_parts (AStringSlice ss) (part # rest) = Some ANil"
    by (rule bad_index_soft_strings)
next
  assume "Getter_resolve g key = Some ANil"
  then show "Getter_Get cv g key typ = Some (Inl ErrKeyNotFound)"
    by (rule Getter_Get_not_found)
next
  show "traverseNestedMap list_tree ''list.1'' = Some (AInt 20)"
    by (rule list_tree_1)
  show "traverseNestedMap list_tree ''list.5'' = Some ANil"
    by (rule list_tree_5)
  show "traverseNestedMap list_tree ''list.notanumber'' = Some ANil"
    by (rule list_tree_notanumber)
  show "Getter_Get example_conversions (NewGetter list_tree) ''list.1'' KeyType_Int
       = Some (Inr (AInt 20))"
    by (rule list_tree_get_1)
  show "Getter_Get example_conversions (NewGetter list_tree) ''list.5'' KeyType_Int
       = Some (Inl ErrKeyNotFound)"
    using list_tree_ci_5 by (rule Getter_Get_not_found)
  show "Getter_Get example_conversions (NewGetter list_tree) ''list.notanumber'' KeyType_Int
       = Some (Inl ErrKeyNotFound)"
    using list_tree_ci_notanumber by (rule Getter_Get_not_found)
qed

theorem sequence_index_witness:
  "Atoi ''1'' = Some 1 \<and> (0::int) \<le> 1 \<and> (1::int) < int (length [AInt 10, AInt 20, AInt 30])
   \<and> (1::int) < int (length [''a'', ''b''])
   \<and> Atoi ''notanumber'' = None
   \<and> Getter_resolve (NewGetter list_tree) ''list.5'' = Some ANil
   \<and> traverse_parts (ASlice [AInt 10, AInt 20, AInt 30]) [''1''] = Some (AInt 20)
   \<and> traverse_parts (AStringSlice [''a'', ''b'']) [''1''] = Some (AString ''b'')
   \<and> traverse_parts (ASlice [AInt 10, AInt 20, AInt 30]) [''notanumber''] = Some ANil
   \<and> traverse_parts (AStringSlice [''a'', ''b'']) [''notanumber''] = Some ANil
   \<and> Getter_Get example_conversions (NewGetter list_tree) ''list.5'' KeyType_Int
       = Some (Inl ErrKeyNotFound)"
  using sequence_index [of "''1''" 1 "[AInt 10, AInt 20, AInt 30]" "[]" "[''a'', ''b'']"
      "NewGetter list_tree" "''list.5''" example_conversions KeyType_Int]
    sequence_index [of "''notanumber''" 0 "[AInt 10, AInt 20, AInt 30]" "[]" "[''a'', ''b'']"
      "NewGetter list_tree" "''list.5''" example_conversions KeyType_Int]
  by (simp add: Atoi_1 Atoi_notanumber list_tree_ci_5)

section \<open>Map keys: exact match first, then the case-insensitive scan\<close>

lemma ci_scan_first:
  assumes "ToLower k = ToLower part"
    and "\<forall>e \<in> set pre. ToLower (fst e) \<noteq> ToLower part"
  shows "ci_scan (pre @ (k, val) # post) part = Some val"
  using assms by (induction pre) (auto simp: ci_scan_def)

lemma ci_scan_none:
  assumes "\<forall>e \<in> set v. ToLower (fst e) \<noteq> ToLower part"
  shows "ci_scan v part = None"
  using assms by (induction v) (auto simp: ci_scan_def)

lemma no_ci_match_no_exact_match:
  assumes "\<forall>e \<in> set v. ToLower (fst e) \<noteq> ToLower part"
  shows "map_of v part = None"
proof (rule ccontr)
  assume "map_of v part \<noteq> None"
  then obtain val where "map_of v part = Some val" by auto
  then have "(part, val) \<in> set v" by (rule map_of_SomeD)
  with assms show False by force
qed

lemma ci_scan_any_first:
  assumes "ToLower ks = ToLower part"
    and "\<forall>e \<in> set pre. \<forall>s. fst e = AString s \<longrightarrow> ToLower s \<noteq> ToLower part"
  shows "ci_scan_any (pre @ (AString ks, val) # post) part = Some val"
  using assms by (induction pre) (auto simp: ci_scan_any_def Let_def split: any.splits)

lemma ci_scan_any_none:
  assumes "\<forall>e \<in> set v. \<forall>s. fst e = AString s \<longrightarrow> ToLower s \<noteq> ToLower part"
  shows "ci_scan_any v part = None"
  using assms by (induction v) (auto simp: ci_scan_any_def Let_def split: any.splits)

lemma no_ci_match_no_exact_match_any:
  assumes "\<forall>e \<in> set v. \<forall>s. fst e = AString s \<longrightarrow> ToLower s \<noteq> ToLower part"
  shows "map_of v (AString part) = None"
proof (rule ccontr)
  assume "map_of v (AString part) \<noteq> None"
  then obtain val where "map_of v (AString part) = Some val" by auto
  then have "(AString part, val) \<in> set v" by (rule map_of_SomeD)
  with assms show False by force
qed

lemma ci_step_any_map:
  assumes "map_of am (AString part) = None" and "ci_scan_any am part = Some val"
  shows "traverse_parts_ci (AAnyMap am) (part # rest) =
           (if val = ANil then Some ANil else traverse_parts_ci val rest)"
  using assms by simp

lemma ci_step_map:
  assumes "map_of v part = None" and "ci_scan v part = Some val"
  shows "traverse_parts_ci (AStringMap v) (part # rest) =
           (if val = ANil then Some ANil else traverse_parts_ci val rest)"
  using assms by simp

lemma ci_step_string_map:
  assumes "map_of sv part = None" and "ci_scan sv part = Some s"
  shows "traverse_parts_ci (AStringMapString sv) (part # rest) = traverse_parts_ci (AString s) rest"
  using assms by simp

text \<open>
  \<open>Config.Get\<close> walks with \<open>traverseNestedMap\<close> first and falls back to the
  case-insensitive traversal when that gives nil. Where the exact walk finds a value the
  case-insensitive one finds the same, so the result of the two steps is the result of
  the case-insensitive traversal.
\<close>

lemma map_index_Some:
  "map_index v k \<noteq> ANil \<Longrightarrow> map_of v k = Some (map_index v k)"
  by (auto simp: map_index_def split: option.splits)

lemma exact_walk_agrees:
  "traverse_parts current parts = Some r \<Longrightarrow> r \<noteq> ANil \<Longrightarrow> traverse_parts_ci current parts = Some r"
proof (induction parts arbitrary: current)
  case Nil
  then show ?case by simp
next
  case (Cons part rest)
  show ?case
  proof (cases current)
    case (AStringMap v)
    with Cons.prems have nn: "map_index v part \<noteq> ANil"
      by (auto simp: Let_def split: if_splits)
    with Cons.prems AStringMap have "traverse_parts (map_index v part) rest = Some r"
      by (simp add: Let_def)
    then have "traverse_parts_ci (map_index v part) rest = Some r"
      using Cons.prems(2) by (rule Cons.IH)
    with nn AStringMap show ?thesis
      by (simp add: map_index_Some)
  next
    case (AStringMapString v)
    with Cons show ?thesis
      by (auto split: option.splits)
  next
    case (ASlice v)
    with Cons show ?thesis
      by (auto split: option.splits if_splits)
  next
    case (AStringSlice v)
    with Cons show ?thesis
      by (auto split: option.splits if_splits)
  next
    case (AAnyMap v)
    with Cons.prems have nn: "map_index v (AString part) \<noteq> ANil"
      by (auto simp: Let_def split: if_splits)
    with Cons.prems AAnyMap have "traverse_parts (map_index v (AString part)) rest = Some r"
      by (simp add: Let_def)
    then have "traverse_parts_ci (map_index v (AString part)) rest = Some r"
      using Cons.prems(2) by (rule Cons.IH)
    with nn AAnyMap show ?thesis
      by (simp add: map_index_Some)
  qed (use Cons.prems in simp_all)
qed

lemma ToLower_Name: "ToLower ''Name'' = ''name''"
  by code_simp

lemma ToLower_NAME: "ToLower ''NAME'' = ''name''"
  by code_simp

lemma ToLower_name: "ToLower ''name'' = ''name''"
  by code_simp

lemma ToLower_port: "ToLower ''port'' = ''port''"
  by code_simp

text \<open>
  C4. At a \<open>map[string]interface{}\<close> node the case-insensitive traversal first looks the
  segment up as it is: a key equal to the segment decides, whatever other keys the map
  holds. Only when there is no such key does it scan the keys, and the first key in the
  order of the scan whose lower-cased form equals the lower-cased segment is taken; when
  no key matches even so, the result is nil. The value found is the result if it is nil,
  and the node the walk goes on from otherwise. A \<open>map[string]string\<close> node and a
  \<open>map[interface{}]interface{}\<close> node are read the same way, the scan of the latter
  looking at its string keys only.
\<close>

theorem exact_then_case_insensitive:
  "(map_of v part = Some val \<longrightarrow>
      traverse_parts_ci (AStringMap v) (part # rest) =
        (if val = ANil then Some ANil else traverse_parts_ci val rest))
   \<and> (map_of (pre @ (k, val) # post) part = None \<and> ToLower k = ToLower part
        \<and> (\<forall>e \<in> set pre. ToLower (fst e) \<noteq> ToLower part) \<longrightarrow>
      traverse_parts_ci (AStringMap (pre @ (k, val) # post)) (part # rest) =
        (if val = ANil then Some ANil else traverse_parts_ci val rest))
   \<and> ((\<forall>e \<in> set v. ToLower (fst e) \<noteq> ToLower part) \<longrightarrow>
      traverse_parts_ci (AStringMap v) (part # rest) = Some ANil)
   \<and> (map_of sv part = Some s \<longrightarrow>
      traverse_parts_ci (AStringMapString sv) (part # rest) = traverse_parts_ci (AString s) rest)
   \<and> (map_of (spre @ (k, s) # spost) part = None \<and> ToLower k = ToLower part
        \<and> (\<forall>e \<in> set spre. ToLower (fst e) \<noteq> ToLower part) \<longrightarrow>
      traverse_parts_ci (AStringMapString (spre @ (k, s) # spost)) (part # rest) =
        traverse_parts_ci (AString s) rest)
   \<and> ((\<forall>e \<in> set sv. ToLower (fst e) \<noteq> ToLower part) \<longrightarrow>
      traverse_parts_ci (AStringMapString sv) (part # rest) = Some ANil)
   \<and> (map_of am (AString part) = Some val \<longrightarrow>
      traverse_parts_ci (AAnyMap am) (part # rest) =
        (if val = ANil then Some ANil else traverse_parts_ci val rest))
   \<and> (map_of (apre @ (AString k, val) # apost) (AString part) = None \<and> ToLower k = ToLower part
        \<and> (\<forall>e \<in> set apre. \<forall>ks. fst e = AString ks \<longrightarrow> ToLower ks \<noteq> ToLower part) \<longrightarrow>
      traverse_parts_ci (AAnyMap (apre @ (AString k, val) # apost)) (part # rest) =
        (if val = ANil then Some ANil else traverse_parts_ci val rest))
   \<and> ((\<forall>e \<in> set am. \<forall>ks. fst e = AString ks \<longrightarrow> ToLower ks \<noteq> ToLower part) \<longrightarrow>
      traverse_parts_ci (AAnyMap am) (part # rest) = Some ANil)"
proof (intro conjI impI)
  assume "map_of v part = Some val"
  then show "traverse_parts_ci (AStringMap v) (part # rest) =
      (if val = ANil then Some ANil else traverse_parts_ci val rest)"
    by simp
next
  assume a: "map_of (pre @ (k, val) # post) part = None \<and> ToLower k = ToLower part
      \<and> (\<forall>e \<in> set pre. ToLower (fst e) \<noteq> ToLower part)"
  then have "ci_scan (pre @ (k, val) # post) part = Some val"
    by (simp add: ci_scan_first)
  moreover from a have "map_of (pre @ (k, val) # post) part = None" ..
  ultimately show "traverse_parts_ci (AStringMap (pre @ (k, val) # post)) (part # rest) =
      (if val = ANil then Some ANil else traverse_parts_ci val rest)"
    by (rule ci_step_map [rotated])
next
  assume a: "\<forall>e \<in> set v. ToLower (fst e) \<noteq> ToLower part"
  then have "map_of v part = None" and "ci_scan v part = None"
    by (rule no_ci_match_no_exact_match, rule ci_scan_none)
  then show "traverse_parts_ci (AStringMap v) (part # rest) = Some ANil"
    by simp
next
  assume "map_of sv part = Some s"
  then show "traverse_parts_ci (AStringMapString sv) (part # rest)
      = traverse_parts_ci (AString s) rest"
    by simp
next
  assume a: "map_of (spre @ (k, s) # spost) part = None \<and> ToLower k = ToLower part
      \<and> (\<forall>e \<in> set spre. ToLower (fst e) \<noteq> ToLower part)"
  then have "ci_scan (spre @ (k, s) # spost) part = Some s"
    by (simp add: ci_scan_first)
  moreover from a have "map_of (spre @ (k, s) # spost) part = None" ..
  ultimately show "traverse_parts_ci (AStringMapString (spre @ (k, s) # spost)) (part # rest) =
      traverse_parts_ci (AString s) rest"
    by (rule ci_step_string_map [rotated])
next
  assume a: "\<forall>e \<in> set sv. ToLower (fst e) \<noteq> ToLower part"
  then have "map_of sv part = None" and "ci_scan sv part = None"
    by (rule no_ci_match_no_exact_match, rule ci_scan_none)
  then show "traverse_parts_ci (AStringMapString sv) (part # rest) = Some ANil"
    by simp
next
  assume "map_of am (AString part) = Some val"
  then show "traverse_parts_ci (AAnyMap am) (part # rest) =
      (if val = ANil then Some ANil else traverse_parts_ci val rest)"
    by simp
next
  assume a: "map_of (apre @ (AString k, val) # apost) (AString part) = None
      \<and> ToLower k = ToLower part
      \<and> (\<forall>e \<in> set apre. \<forall>ks. fst e = AString ks \<longrightarrow> ToLower ks \<noteq> ToLower part)"
  then have "ci_scan_any (apre @ (AString k, val) # apost) part = Some val"
    by (simp add: ci_scan_any_first)
  moreover from a have "map_of (apre @ (AString k, val) # apost) (AString part) = None" ..
  ultimately show "traverse_parts_ci (AAnyMap (apre @ (AString k, val) # apost)) (part # rest) =
      (if val = ANil then Some ANil else traverse_parts_ci val rest)"
    by (rule ci_step_any_map [rotated])
next
  assume a: "\<forall>e \<in> set am. \<forall>ks. fst e = AString ks \<longrightarrow> ToLower ks \<noteq> ToLower part"
  then have "map_of am (AString part) = None" and "ci_scan_any am part = None"
    by (rule no_ci_match_no_exact_match_any, rule ci_scan_any_none)
  then show "traverse_parts_ci (AAnyMap am) (part # rest) = Some ANil"
    by simp
qed

theorem exact_then_case_insensitive_witness:
  "map_of [(''NAME'', AInt 1), (''name'', AInt 3)] ''name'' = Some (AInt 3)
   \<and> traverse_parts_ci (AStringMap [(''NAME'', AInt 1), (''name'', AInt 3)]) [''name'']
       = Some (AInt 3)
   \<and> map_of [(''port'', AInt 9), (''NAME'', AInt 1), (''Name'', AInt 2)] ''name'' = None
   \<and> ToLower ''NAME'' = ToLower ''name'' \<and> ToLower ''port'' \<noteq> ToLower ''name''
   \<and> traverse_parts_ci (AStringMap [(''port'', AInt 9), (''NAME'', AInt 1), (''Name'', AInt 2)])
         [''name'']
       = Some (AInt 1)
   \<and> traverse_parts_ci (AStringMap [(''port'', AInt 9)]) [''name''] = Some ANil
   \<and> map_of [(''NAME'', ''a''), (''name'', ''c'')] ''name'' = Some ''c''
   \<and> traverse_parts_ci (AStringMapString [(''NAME'', ''a''), (''name'', ''c'')]) [''name'']
       = Some (AString ''c'')
   \<and> map_of [(''port'', ''p''), (''NAME'', ''a''), (''Name'', ''b'')] ''name'' = None
   \<and> traverse_parts_ci (AStringMapString [(''port'', ''p''), (''NAME'', ''a''), (''Name'', ''b'')])
         [''name'']
       = Some (AString ''a'')
   \<and> traverse_parts_ci (AStringMapString [(''port'', ''p'')]) [''name''] = Some ANil
   \<and> map_of [(AString ''NAME'', AInt 1), (AString ''name'', AInt 3)] (AString ''name'')
       = Some (AInt 3)
   \<and> traverse_parts_ci (AAnyMap [(AString ''NAME'', AInt 1), (AString ''name'', AInt 3)])
         [''name'']
       = Some (AInt 3)
   \<and> map_of [(AInt 5, AInt 9), (AString ''NAME'', AInt 1), (AString ''Name'', AInt 2)]
         (AString ''name'') = None
   \<and> traverse_parts_ci
         (AAnyMap [(AInt 5, AInt 9), (AString ''NAME'', AInt 1), (AString ''Name'', AInt 2)])
         [''name'']
       = Some (AInt 1)
   \<and> traverse_parts_ci (AAnyMap [(AInt 5, AInt 9)]) [''name''] = Some ANil"
  using
    exact_then_case_insensitive
      [where v = "[(''NAME'', AInt 1), (''name'', AInt 3)]" and part = "''name''"
         and val = "AInt 3" and rest = "[]" and pre = "[]" and k = "''name''" and post = "[]"
         and sv = "[(''NAME'', ''a''), (''name'', ''c'')]" and s = "''c''" and spre = "[]"
         and spost = "[]" and am = "[(AString ''NAME'', AInt 1), (AString ''name'', AInt 3)]"
         and apre = "[]" and apost = "[]"]
    exact_then_case_insensitive
      [where v = "[(''port'', AInt 9)]" and part = "''name''"
         and val = "AInt 1" and rest = "[]" and pre = "[(''port'', AInt 9)]" and k = "''NAME''"
         and post = "[(''Name'', AInt 2)]"
         and sv = "[(''port'', ''p'')]" and s = "''a''" and spre = "[(''port'', ''p'')]"
         and spost = "[(''Name'', ''b'')]" and am = "[(AInt 5, AInt 9)]"
         and apre = "[(AInt 5, AInt 9)]" and apost = "[(AString ''Name'', AInt 2)]"]
  by (simp add: ToLower_NAME ToLower_name ToLower_port ToLower_Name)

section \<open>The typed getters of the viper wrapper\<close>

lemma SplitN2_nonempty: "SplitN2 s \<noteq> []"
  by (induction s) (auto split: list.splits)

lemma descend_returns:
  assumes "\<And>m p. \<exists>r. traverse m p = Some r"
  shows "\<exists>r. descend traverse topLevelValue parts value = Some r"
proof (cases "topLevelValue \<noteq> ANil \<and> length parts > 1")
  case False
  then show ?thesis by (auto simp: descend_def)
next
  case True
  then obtain p where p: "slice_index parts 1 = Some p"
    by (auto simp: slice_index_def)
  show ?thesis
  proof (cases topLevelValue)
    case (AStringMap m)
    with True p assms [of m p] show ?thesis by (simp add: descend_def)
  qed (use True in \<open>simp_all add: descend_def\<close>)
qed

lemma traverseNestedMap_returns: "\<exists>r. traverseNestedMap m p = Some r"
  unfolding traverseNestedMap_def by (rule traverse_parts_returns)

lemma traverseNestedMapCaseInsensitive_returns:
  "\<exists>r. traverseNestedMapCaseInsensitive m p = Some r"
  unfolding traverseNestedMapCaseInsensitive_def by (rule traverse_parts_ci_returns)

lemma Get_returns: "\<exists>r. Get c key = Some r"
proof (cases "vGet c key = ANil \<and> Contains_dot key")
  case False
  then show ?thesis by (auto simp: Get_def)
next
  case True
  obtain t ps where parts: "SplitN2 key = t # ps"
    using SplitN2_nonempty [of key] by (cases "SplitN2 key") auto
  then have top: "slice_index (SplitN2 key) 0 = Some t"
    by (simp add: slice_index_def)
  obtain value1 where v1:
    "descend traverseNestedMap (vGet c t) (SplitN2 key) (vGet c key) = Some value1"
    using descend_returns [of traverseNestedMap, OF traverseNestedMap_returns] by blast
  obtain r1 where r1: "descend traverseNestedMapCaseInsensitive
      (vGet c (ToLower t)) (SplitN2 key) value1 = Some r1"
    using descend_returns [of traverseNestedMapCaseInsensitive,
        OF traverseNestedMapCaseInsensitive_returns] by blast
  obtain r2 where r2: "descend traverseNestedMapCaseInsensitive
      (vGet c t) (SplitN2 key) value1 = Some r2"
    using descend_returns [of traverseNestedMapCaseInsensitive,
        OF traverseNestedMapCaseInsensitive_returns] by blast
  from True top v1 r1 r2 show ?thesis
    by (auto simp: Get_def Let_def)
qed

lemma Get_viper_value: "vGet c key \<noteq> ANil \<Longrightarrow> Get c key = Some (vGet c key)"
  by (simp add: Get_def)

lemma getTypedValue_absent:
  "Get c key = Some ANil \<Longrightarrow> getTypedValue c key d typeCheck viperGet = Some d"
  by (simp add: getTypedValue_def)

text \<open>
  C10. \<open>Config.Get\<close> of the viper wrapper returns for every key, without a panic. For a
  key that is absent, that is when it returns nil, each typed getter returns the zero
  value of its type and does not panic: the empty string, 0, \<open>false\<close>, the zero duration,
  the zero time, and nil for the slice and the two maps. A key that holds the zero value
  gives the same result, so the getters do not tell the two apart.
\<close>

theorem typed_getters_zero_value:
  "(\<exists>r. Get c key = Some r)
   \<and> (Get c key = Some ANil \<longrightarrow>
        GetString c key = Some []
        \<and> GetInt c key = Some 0
        \<and> GetInt64 c key = Some 0
        \<and> GetBool c key = Some False
        \<and> GetFloat64 c key = Some 0
        \<and> GetDuration c key = Some 0
        \<and> GetTime c key = Some 0
        \<and> GetStringSlice c key = Some []
        \<and> GetStringMap c key = Some []
        \<and> GetStringMapString c key = Some [])
   \<and> (vGet c key = AString [] \<longrightarrow> GetString c key = Some [])
   \<and> (vGet c key = AInt 0 \<longrightarrow> GetInt c key = Some 0)
   \<and> (vGet c key = ABool False \<longrightarrow> GetBool c key = Some False)"
proof (intro conjI impI)
  show "\<exists>r. Get c key = Some r" by (rule Get_returns)
next
  assume absent: "Get c key = Some ANil"
  show "GetString c key = Some []"
    by (simp add: GetString_def getTypedValue_absent [OF absent])
  show "GetInt c key = Some 0"
    by (simp add: GetInt_def getTypedValue_absent [OF absent])
  show "GetInt64 c key = Some 0"
    by (simp add: GetInt64_def getTypedValue_absent [OF absent])
  show "GetBool c key = Some False"
    by (simp add: GetBool_def getTypedValue_absent [OF absent])
  show "GetFloat64 c key = Some 0"
    by (simp add: GetFloat64_def getTypedValue_absent [OF absent])
  show "GetDuration c key = Some 0"
    by (simp add: GetDuration_def getTypedValue_absent [OF absent])
  show "GetTime c key = Some 0"
    by (simp add: GetTime_def getTypedValue_absent [OF absent])
  show "GetStringSlice c key = Some []"
    by (simp add: GetStringSlice_def getTypedValue_absent [OF absent])
  show "GetStringMap c key = Some []"
    by (simp add: GetStringMap_def getTypedValue_absent [OF absent])
  show "GetStringMapString c key = Some []"
    by (simp add: GetStringMapString_def getTypedValue_absent [OF absent])
next
  assume "vGet c key = AString []"
  then show "GetString c key = Some []"
    by (simp add: Get_def GetString_def getTypedValue_def)
next
  assume "vGet c key = AInt 0"
  then show "GetInt c key = Some 0"
    by (simp add: Get_def GetInt_def getTypedValue_def)
next
  assume "vGet c key = ABool False"
  then show "GetBool c key = Some False"
    by (simp add: Get_def GetBool_def getTypedValue_def)
qed

lemma Get_blank_dotted: "Get blank_viper ''app.name'' = Some ANil"
  by (simp add: Get_def blank_viper_def Contains_dot_def slice_index_def descend_def Let_def)

theorem typed_getters_zero_value_witness:
  "Get blank_viper ''app.name'' = Some ANil
   \<and> GetString blank_viper ''app.name'' = Some []
   \<and> GetInt blank_viper ''app.name'' = Some 0
   \<and> GetInt64 blank_viper ''app.name'' = Some 0
   \<and> GetBool blank_viper ''app.name'' = Some False
   \<and> GetFloat64 blank_viper ''app.name'' = Some 0
   \<and> GetDuration blank_viper ''app.name'' = Some 0
   \<and> GetTime blank_viper ''app.name'' = Some 0
   \<and> GetStringSlice blank_viper ''app.name'' = Some []
   \<and> GetStringMap blank_viper ''app.name'' = Some []
   \<and> GetStringMapString blank_viper ''app.name'' = Some []
   \<and> vGet (holding (AString [])) ''app.name'' = AString []
   \<and> GetString (holding (AString [])) ''app.name'' = Some []
   \<and> vGet (holding (AInt 0)) ''app.name'' = AInt 0
   \<and> GetInt (holding (AInt 0)) ''app.name'' = Some 0
   \<and> vGet (holding (ABool False)) ''app.name'' = ABool False
   \<and> GetBool (holding (ABool False)) ''app.name'' = Some False"
  using typed_getters_zero_value [of blank_viper "''app.name''"] Get_blank_dotted
    typed_getters_zero_value [of "holding (AString [])" "''app.name''"]
    typed_getters_zero_value [of "holding (AInt 0)" "''app.name''"]
    typed_getters_zero_value [of "holding (ABool False)" "''app.name''"]
  by (simp add: holding_def)

section \<open>Reload and Close of the configuration service\<close>

lemma Reload_error_keeps_getter:
  "snd (Reload ops c) \<noteq> None \<Longrightarrow> getter (fst (Reload ops c)) = getter c"
  by (auto simp: Reload_def split: prod.splits option.splits)

lemma Reload_error_iff:
  "snd (Reload ops c) \<noteq> None \<longleftrightarrow> snd (ReadInConfig ops (provider c)) \<noteq> None"
  by (auto simp: Reload_def split: prod.splits option.splits)

text \<open>
  C6. When \<open>Reload\<close> fails, which it does exactly when \<open>ReadInConfig\<close> of the provider
  returns an error, the getter of the service is the one it had before, and \<open>Get\<close> and
  \<open>Has\<close> answer as before.
\<close>

theorem reload_failure_keeps_snapshot:
  "(snd (Reload ops c) \<noteq> None \<longleftrightarrow> snd (ReadInConfig ops (provider c)) \<noteq> None)
   \<and> (snd (Reload ops c) \<noteq> None \<longrightarrow>
        getter (fst (Reload ops c)) = getter c
        \<and> Config_Get cv (fst (Reload ops c)) key typ = Config_Get cv c key typ
        \<and> Config_Has (fst (Reload ops c)) key = Config_Has c key)"
  using Reload_error_keeps_getter [of ops c] Reload_error_iff [of ops c]
  by (simp add: Config_Get_def Config_Has_def)

lemma test_tree_my_int:
  "Getter_resolve (NewGetter test_tree) ''my.int'' = Some (AInt 123)"
  by (simp add: Getter_resolve_def NewGetter_def traverseNestedMapCaseInsensitive_def
      test_tree_def)

lemma test_tree_get_my_int:
  "Getter_Get example_conversions (NewGetter test_tree) ''my.int'' KeyType_Int
     = Some (Inr (AInt 123))"
  using int_in_KeyTypes
  by (simp add: Getter_Get_def test_tree_my_int example_conversions_def)

theorem reload_failure_keeps_snapshot_witness:
  "snd (Reload (tree_provider_ops failing_os)
          (New (tree_provider_ops failing_os) \<lparr>config_file = ''app.yaml'', config_tree = test_tree\<rparr> ()))
     = Some (Errorf ''error reloading config: %w'' [External ''unreadable''])
   \<and> getter (fst (Reload (tree_provider_ops failing_os)
          (New (tree_provider_ops failing_os) \<lparr>config_file = ''app.yaml'', config_tree = test_tree\<rparr> ())))
     = NewGetter test_tree
   \<and> Config_Get example_conversions
        (fst (Reload (tree_provider_ops failing_os)
          (New (tree_provider_ops failing_os) \<lparr>config_file = ''app.yaml'', config_tree = test_tree\<rparr> ())))
        ''my.int'' KeyType_Int
     = Some (Inr (AInt 123))"
  using reload_failure_keeps_snapshot
    [of "tree_provider_ops failing_os"
        "New (tree_provider_ops failing_os) \<lparr>config_file = ''app.yaml'', config_tree = test_tree\<rparr> ()"
        example_conversions "''my.int''" KeyType_Int]
  by (simp add: Reload_def New_def tree_provider_ops_def failing_os_def Config_Get_def
      test_tree_get_my_int)

lemma Close_keeps_provider_and_getter:
  "Close wclose c = Some (c', e) \<Longrightarrow> provider c' = provider c \<and> getter c' = getter c \<and> doneClosed c'"
  by (auto simp: Close_def Let_def split: if_splits option.splits prod.splits)

lemma Reload_depends_on_provider:
  "provider c' = provider c \<Longrightarrow> snd (Reload ops c') = snd (Reload ops c)
     \<and> getter (fst (Reload ops c')) = (if snd (Reload ops c) = None
          then getter (fst (Reload ops c)) else getter c')
     \<and> provider (fst (Reload ops c')) = provider (fst (Reload ops c))"
  by (auto simp: Reload_def split: prod.splits option.splits)

lemma Reload_keeps_watcher_and_done:
  "watcher (fst (Reload ops c)) = watcher c \<and> doneClosed (fst (Reload ops c)) = doneClosed c"
  by (auto simp: Reload_def split: prod.splits option.splits)

text \<open>
  C9, as the code has it. \<open>Close\<close> closes the channel \<open>done\<close> and the watcher and leaves
  the provider and the getter alone, and \<open>Reload\<close> does not look at \<open>done\<close>: a reload
  after \<open>Close\<close> fails exactly when \<open>ReadInConfig\<close> of the provider fails, with the
  same error as a reload of the service that was not closed, and otherwise it succeeds and
  installs the same new getter. It leaves the watcher and \<open>done\<close> as \<open>Close\<close> left them.
\<close>

theorem reload_after_close_as_before:
  "Close wclose c = Some (c', e) \<longrightarrow>
     doneClosed c'
     \<and> snd (Reload ops c') = snd (Reload ops c)
     \<and> (snd (Reload ops c') \<noteq> None \<longleftrightarrow> snd (ReadInConfig ops (provider c)) \<noteq> None)
     \<and> (snd (Reload ops c') = None \<longrightarrow>
          getter (fst (Reload ops c')) = getter (fst (Reload ops c)))
     \<and> watcher (fst (Reload ops c')) = watcher c'
     \<and> doneClosed (fst (Reload ops c'))"
proof
  assume cl: "Close wclose c = Some (c', e)"
  then have p: "provider c' = provider c" and d: "doneClosed c'"
    using Close_keeps_provider_and_getter by blast+
  from Reload_depends_on_provider [OF p, of ops]
  have r: "snd (Reload ops c') = snd (Reload ops c)"
    and g: "getter (fst (Reload ops c')) = (if snd (Reload ops c) = None
          then getter (fst (Reload ops c)) else getter c')"
    by simp_all
  have i: "snd (Reload ops c') \<noteq> None \<longleftrightarrow> snd (ReadInConfig ops (provider c)) \<noteq> None"
    using Reload_error_iff [of ops c'] p by simp
  have w: "watcher (fst (Reload ops c')) = watcher c'"
    and k: "doneClosed (fst (Reload ops c')) = doneClosed c'"
    using Reload_keeps_watcher_and_done [of ops c'] by simp_all
  from d r g i w k show "doneClosed c'
     \<and> snd (Reload ops c') = snd (Reload ops c)
     \<and> (snd (Reload ops c') \<noteq> None \<longleftrightarrow> snd (ReadInConfig ops (provider c)) \<noteq> None)
     \<and> (snd (Reload ops c') = None \<longrightarrow>
          getter (fst (Reload ops c')) = getter (fst (Reload ops c)))
     \<and> watcher (fst (Reload ops c')) = watcher c'
     \<and> doneClosed (fst (Reload ops c'))"
    by simp
qed

lemma example_service_Close:
  "Close (\<lambda>w. (w, None)) example_service = Some (example_service\<lparr>doneClosed := True\<rparr>, None)"
  by (simp add: Close_def example_service_def New_def Let_def)

lemma example_service_Reload_closed:
  "Reload (tree_provider_ops example_os) (example_service\<lparr>doneClosed := True\<rparr>)
     = (\<lparr>provider = \<lparr>config_file = ''conf/a.yaml'', config_tree = [(''name'', AString ''x'')]\<rparr>,
         getter = NewGetter [(''name'', AString ''x'')], watcher = Some (),
         watchedFiles = [], doneClosed = True\<rparr>, None)"
  by (simp add: Reload_def example_service_def New_def tree_provider_ops_def example_os_def)

theorem reload_after_close_as_before_witness:
  "Close (\<lambda>w. (w, None)) example_service = Some (example_service\<lparr>doneClosed := True\<rparr>, None)
   \<and> doneClosed (example_service\<lparr>doneClosed := True\<rparr>)
   \<and> snd (Reload (tree_provider_ops example_os) (example_service\<lparr>doneClosed := True\<rparr>))
       = snd (Reload (tree_provider_ops example_os) example_service)
   \<and> snd (Reload (tree_provider_ops example_os) (example_service\<lparr>doneClosed := True\<rparr>)) = None
   \<and> getter (fst (Reload (tree_provider_ops example_os) (example_service\<lparr>doneClosed := True\<rparr>)))
       = getter (fst (Reload (tree_provider_ops example_os) example_service))"
  using reload_after_close_as_before
    [of "\<lambda>w. (w, None)" example_service "example_service\<lparr>doneClosed := True\<rparr>" None
        "tree_provider_ops example_os"]
    example_service_Close example_service_Reload_closed
  by simp

text \<open>
  The claim C9 as it is stated fails: on a service that has been closed, with the channel
  \<open>done\<close> closed and the watcher closed without an error, \<open>Reload\<close> returns no error and
  installs the snapshot of the file it has read.
\<close>

theorem reload_after_close_succeeds:
  "Close (\<lambda>w. (w, None)) example_service = Some (example_service\<lparr>doneClosed := True\<rparr>, None)
   \<and> doneClosed (example_service\<lparr>doneClosed := True\<rparr>)
   \<and> snd (Reload (tree_provider_ops example_os) (example_service\<lparr>doneClosed := True\<rparr>)) = None
   \<and> getter (fst (Reload (tree_provider_ops example_os) (example_service\<lparr>doneClosed := True\<rparr>)))
       = NewGetter [(''name'', AString ''x'')]
   \<and> getter (example_service\<lparr>doneClosed := True\<rparr>) = NewGetter []"
  using example_service_Close example_service_Reload_closed
  by (simp add: example_service_def New_def tree_provider_ops_def)

section \<open>Error classes of the typed accessor\<close>

lemma Getter_resolve_returns: "\<exists>v. Getter_resolve g key = Some v"
  unfolding Getter_resolve_def by (rule traverseNestedMapCaseInsensitive_returns)

lemma Atoi_420: "Atoi ''420'' = Some 420"
  by (simp add: Atoi_def is_digit_def digits_value_def)

lemma Atoi_abc: "Atoi ''abc'' = None"
  by (simp add: Atoi_def is_digit_def)

lemma test_tree_str_int:
  "Getter_resolve (NewGetter test_tree) ''str.int'' = Some (AString ''420'')"
  by (simp add: Getter_resolve_def NewGetter_def traverseNestedMapCaseInsensitive_def
      test_tree_def)

lemma test_tree_my_str:
  "Getter_resolve (NewGetter test_tree) ''my.str'' = Some (AString ''abc'')"
  by (simp add: Getter_resolve_def NewGetter_def traverseNestedMapCaseInsensitive_def
      test_tree_def)

lemma test_tree_my_bool:
  "Getter_resolve (NewGetter test_tree) ''my.bool'' = Some (ABool True)"
  by (simp add: Getter_resolve_def NewGetter_def traverseNestedMapCaseInsensitive_def
      test_tree_def)

lemma ToLower_missing: "ToLower ''missing'' = ''missing''"
  by code_simp

lemma ToLower_str: "ToLower ''str'' = ''str''"
  by code_simp

lemma ToLower_my: "ToLower ''my'' = ''my''"
  by code_simp

lemma test_tree_missing:
  "Getter_resolve (NewGetter test_tree) ''missing'' = Some ANil"
  by (simp add: Getter_resolve_def NewGetter_def traverseNestedMapCaseInsensitive_def
      test_tree_def ci_scan_def ToLower_missing ToLower_str ToLower_my)

lemma key_types_known:
  "KeyType_Int \<in> set KeyTypes" "KeyType_String \<in> set KeyTypes" "KeyType_Bool \<in> set KeyTypes"
  "''complex'' \<notin> set KeyTypes"
  by (simp_all add: KeyType_Int_def KeyType_String_def KeyType_Bool_def KeyTypes_def)

lemma key_types_distinct:
  "KeyType_Int \<noteq> KeyType_String" "KeyType_Int \<noteq> KeyType_Bool" "KeyType_String \<noteq> KeyType_Bool"
  "KeyType_String \<noteq> KeyType_Int" "KeyType_Bool \<noteq> KeyType_Int" "KeyType_Bool \<noteq> KeyType_String"
  by (simp_all add: KeyType_Int_def KeyType_String_def KeyType_Bool_def)

text \<open>
  C5. \<open>get\<close> never panics and classifies as follows. When resolution finds no value the
  error is \<open>KeyNotFound\<close>. When a value is found and the type tag is not one of the declared
  key types the error is \<open>UnknownType\<close>. When a value is found and the tag is declared, the
  result is the value given by the direct type assertion, or else by the coercion, and the
  error is \<open>WrongType\<close> when both fail. On the settings of \<open>TestConfig_Get\<close>: the stored
  string \<open>"420"\<close> read as \<open>int\<close> is 420, the stored string \<open>"abc"\<close> read as \<open>int\<close> is
  \<open>WrongType\<close>, a missing key is \<open>KeyNotFound\<close>, and an undeclared tag is \<open>UnknownType\<close>.
\<close>

theorem get_error_classes:
  "(\<exists>res. Config_Get cv c key typ = Some res)
   \<and> (Getter_resolve (getter c) key = Some ANil \<longrightarrow>
        Config_Get cv c key typ = Some (Inl ErrKeyNotFound))
   \<and> (Getter_resolve (getter c) key = Some v \<and> v \<noteq> ANil \<and> typ \<notin> set KeyTypes \<longrightarrow>
        Config_Get cv c key typ = Some (Inl ErrUnknownType))
   \<and> (Getter_resolve (getter c) key = Some v \<and> v \<noteq> ANil \<and> typ \<in> set KeyTypes
        \<and> direct cv typ v = Some r \<longrightarrow>
        Config_Get cv c key typ = Some (Inr r))
   \<and> (Getter_resolve (getter c) key = Some v \<and> v \<noteq> ANil \<and> typ \<in> set KeyTypes
        \<and> direct cv typ v = None \<and> coerce cv typ v = Some r \<longrightarrow>
        Config_Get cv c key typ = Some (Inr r))
   \<and> (Getter_resolve (getter c) key = Some v \<and> v \<noteq> ANil \<and> typ \<in> set KeyTypes
        \<and> direct cv typ v = None \<and> coerce cv typ v = None \<longrightarrow>
        Config_Get cv c key typ = Some (Inl ErrWrongType))
   \<and> Getter_Get example_conversions (NewGetter test_tree) ''str.int'' KeyType_Int
       = Some (Inr (AInt 420))
   \<and> Getter_Get example_conversions (NewGetter test_tree) ''my.int'' KeyType_Int
       = Some (Inr (AInt 123))
   \<and> Getter_Get example_conversions (NewGetter test_tree) ''my.str'' KeyType_String
       = Some (Inr (AString ''abc''))
   \<and> Getter_Get example_conversions (NewGetter test_tree) ''my.bool'' KeyType_Bool
       = Some (Inr (ABool True))
   \<and> Getter_Get example_conversions (NewGetter test_tree) ''missing'' KeyType_Int
       = Some (Inl ErrKeyNotFound)
   \<and> Getter_Get example_conversions (NewGetter test_tree) ''my.str'' KeyType_Int
       = Some (Inl ErrWrongType)
   \<and> Getter_Get example_conversions (NewGetter test_tree) ''my.str'' ''complex''
       = Some (Inl ErrUnknownType)"
proof (intro conjI impI)
  show "\<exists>res. Config_Get cv c key typ = Some res"
    using Getter_resolve_returns [of "getter c" key]
    by (auto simp: Config_Get_def Getter_Get_def)
next
  assume "Getter_resolve (getter c) key = Some ANil"
  then show "Config_Get cv c key typ = Some (Inl ErrKeyNotFound)"
    by (simp add: Config_Get_def Getter_Get_def)
next
  assume "Getter_resolve (getter c) key = Some v \<and> v \<noteq> ANil \<and> typ \<notin> set KeyTypes"
  then show "Config_Get cv c key typ = Some (Inl ErrUnknownType)"
    by (simp add: Config_Get_def Getter_Get_def)
next
  assume "Getter_resolve (getter c) key = Some v \<and> v \<noteq> ANil \<and> typ \<in> set KeyTypes
      \<and> direct cv typ v = Some r"
  then show "Config_Get cv c key typ = Some (Inr r)"
    by (simp add: Config_Get_def Getter_Get_def)
next
  assume "Getter_resolve (getter c) key = Some v \<and> v \<noteq> ANil \<and> typ \<in> set KeyTypes
      \<and> direct cv typ v = None \<and> coerce cv typ v = Some r"
  then show "Config_Get cv c key typ = Some (Inr r)"
    by (simp add: Config_Get_def Getter_Get_def)
next
  assume "Getter_resolve (getter c) key = Some v \<and> v \<noteq> ANil \<and> typ \<in> set KeyTypes
      \<and> direct cv typ v = None \<and> coerce cv typ v = None"
  then show "Config_Get cv c key typ = Some (Inl ErrWrongType)"
    by (simp add: Config_Get_def Getter_Get_def)
next
  show "Getter_Get example_conversions (NewGetter test_tree) ''str.int'' KeyType_Int
       = Some (Inr (AInt 420))"
    using key_types_known
    by (simp add: Getter_Get_def test_tree_str_int example_conversions_def Atoi_420)
  show "Getter_Get example_conversions (NewGetter test_tree) ''my.int'' KeyType_Int
       = Some (Inr (AInt 123))"
    by (rule test_tree_get_my_int)
  show "Getter_Get example_conversions (NewGetter test_tree) ''my.str'' KeyType_String
       = Some (Inr (AString ''abc''))"
    using key_types_known key_types_distinct
    by (simp add: Getter_Get_def test_tree_my_str example_conversions_def)
  show "Getter_Get example_conversions (NewGetter test_tree) ''my.bool'' KeyType_Bool
       = Some (Inr (ABool True))"
    using key_types_known key_types_distinct
    by (simp add: Getter_Get_def test_tree_my_bool example_conversions_def)
  show "Getter_Get example_conversions (NewGetter test_tree) ''missing'' KeyType_Int
       = Some (Inl ErrKeyNotFound)"
    by (simp add: Getter_Get_def test_tree_missing)
  show "Getter_Get example_conversions (NewGetter test_tree) ''my.str'' KeyType_Int
       = Some (Inl ErrWrongType)"
    using key_types_known
    by (simp add: Getter_Get_def test_tree_my_str example_conversions_def Atoi_abc)
  show "Getter_Get example_conversions (NewGetter test_tree) ''my.str'' ''complex''
       = Some (Inl ErrUnknownType)"
    using key_types_known
    by (simp add: Getter_Get_def test_tree_my_str)
qed

lemma test_service_getter: "getter test_service = NewGetter test_tree"
  by (simp add: test_service_def New_def tree_provider_ops_def)

theorem get_error_classes_witness:
  "Getter_resolve (getter test_service) ''missing'' = Some ANil
   \<and> Config_Get example_conversions test_service ''missing'' KeyType_Int
       = Some (Inl ErrKeyNotFound)
   \<and> Getter_resolve (getter test_service) ''my.str'' = Some (AString ''abc'')
   \<and> ''complex'' \<notin> set KeyTypes
   \<and> Config_Get example_conversions test_service ''my.str'' ''complex''
       = Some (Inl ErrUnknownType)
   \<and> Getter_resolve (getter test_service) ''my.int'' = Some (AInt 123)
   \<and> KeyType_Int \<in> set KeyTypes
   \<and> direct example_conversions KeyType_Int (AInt 123) = Some (AInt 123)
   \<and> Config_Get example_conversions test_service ''my.int'' KeyType_Int
       = Some (Inr (AInt 123))
   \<and> Getter_resolve (getter test_service) ''str.int'' = Some (AString ''420'')
   \<and> direct example_conversions KeyType_Int (AString ''420'') = None
   \<and> coerce example_conversions KeyType_Int (AString ''420'') = Some (AInt 420)
   \<and> Config_Get example_conversions test_service ''str.int'' KeyType_Int
       = Some (Inr (AInt 420))
   \<and> direct example_conversions KeyType_Int (AString ''abc'') = None
   \<and> coerce example_conversions KeyType_Int (AString ''abc'') = None
   \<and> Config_Get example_conversions test_service ''my.str'' KeyType_Int
       = Some (Inl ErrWrongType)"
  using
    get_error_classes [of example_conversions test_service "''missing''" KeyType_Int
        ANil ANil]
    get_error_classes [of example_conversions test_service "''my.str''" "''complex''"
        "AString ''abc''" ANil]
    get_error_classes [of example_conversions test_service "''my.int''" KeyType_Int
        "AInt 123" "AInt 123"]
    get_error_classes [of example_conversions test_service "''str.int''" KeyType_Int
        "AString ''420''" "AInt 420"]
    get_error_classes [of example_conversions test_service "''my.str''" KeyType_Int
        "AString ''abc''" ANil]
    key_types_known
  by (simp add: test_service_getter test_tree_missing test_tree_my_str test_tree_my_int
      test_tree_str_int example_conversions_def Atoi_420 Atoi_abc)

section \<open>Merging settings trees\<close>








lemma merge_db: "merge [(''host'', AString ''a''), (''port'', AInt 1)] [(''port'', AInt 2)]
    = [(''host'', AString ''a''), (''port'', AInt 2)]"
  by simp



section \<open>Directory loads and the namespace of a file\<close>

lemma Ext_a_yaml: "Ext ''a.yaml'' = ''.yaml''"
  by (simp add: Ext_def)

lemma Ext_b_json: "Ext ''b.json'' = ''.json''"
  by (simp add: Ext_def)

lemma Join_conf:
  "Join ''conf'' ''a.yaml'' = ''conf/a.yaml''" "Join ''conf'' ''b.json'' = ''conf/b.json''"
  by (simp_all add: Join_def)

lemma example_os_files:
  "ReadDir example_os ''conf'' = Inr [(''a.yaml'', False), (''b.json'', False)]"
  "loadFile example_os ''conf/a.yaml'' = Inr [(''name'', AString ''x'')]"
  "loadFile example_os ''conf/b.json'' = Inr [(''port'', AInt 1)]"
  by (simp_all add: example_os_def)

lemma example_config_files:
  "IsSupportedConfigFile ''a.yaml''" "IsSupportedConfigFile ''b.json''"
  by (simp_all add: IsSupportedConfigFile_def Ext_a_yaml Ext_b_json)

lemma Loader_records_calls:
  "Loader_LoadFromDirectory recording_ops example_os (Some []) ''conf''
     = (Some [Call_SetConfigFile ''conf/a.yaml'', Call_ReadInConfig,
              Call_MergeConfigMap [(''port'', AInt 1)]], None)"
  by (simp add: Loader_LoadFromDirectory_def example_os_files example_config_files Join_conf
      mergeConfigFile_def recording_ops_def)

lemma Loader_builds_tree:
  "Loader_LoadFromDirectory (tree_provider_ops example_os) example_os
       (Some \<lparr>config_file = [], config_tree = []\<rparr>) ''conf''
     = (Some \<lparr>config_file = ''conf/a.yaml'',
               config_tree = [(''name'', AString ''x''), (''port'', AInt 1)]\<rparr>, None)"
  by (simp add: Loader_LoadFromDirectory_def example_os_files example_config_files Join_conf
      mergeConfigFile_def tree_provider_ops_def)

lemma ToLower_a: "ToLower ''a'' = ''a''"
  by code_simp

lemma ToLower_b: "ToLower ''b'' = ''b''"
  by code_simp

lemma flat_tree_no_namespace:
  "Getter_resolve (NewGetter [(''name'', AString ''x''), (''port'', AInt 1)]) ''a.name'' = Some ANil"
  "Getter_resolve (NewGetter [(''name'', AString ''x''), (''port'', AInt 1)]) ''b.port'' = Some ANil"
  "Getter_resolve (NewGetter [(''name'', AString ''x''), (''port'', AInt 1)]) ''port''
     = Some (AInt 1)"
  by (simp_all add: Getter_resolve_def NewGetter_def traverseNestedMapCaseInsensitive_def
      ci_scan_def ToLower_a ToLower_b ToLower_name ToLower_port)

text \<open>
  The loop of \<open>Loader.LoadFromDirectory\<close> after the first file: every file that can be read
  goes to \<open>MergeConfigMap\<close> as the tree read from it, without a key around it.
\<close>

lemma load_config_files_passes_trees:
  assumes "\<forall>f \<in> set files. loadFile sys (Join dir f) = Inr (tree_of f)"
  shows "load_config_files recording_ops sys dir files False log
           = (log @ map (\<lambda>f. Call_MergeConfigMap (tree_of f)) files, None)"
  using assms
  by (induction files arbitrary: log) (simp_all add: mergeConfigFile_def recording_ops_def)

text \<open>
  The directory load of the viper wrapper on the same two files: each tree goes to
  \<open>MergeConfigMap\<close> under the name of its file without the extension, the first file
  included.
\<close>

lemma wrapper_directory_load_wraps:
  "loadFromDirectoryWithPrefixAndOptions (\<lambda>m log. (log @ [m], None))
       (Readable [FFile ''a.yaml'' (Inr [(''name'', AString ''x'')]),
                  FFile ''b.json'' (Inr [(''port'', AInt 1)])]) [] False []
     = ([[(''a'', AStringMap [(''name'', AString ''x'')])],
         [(''b'', AStringMap [(''port'', AInt 1)])]], [])"
  by (simp add: Ext_a_yaml Ext_b_json)

lemma wrapper_directory_load_resolves:
  "loadFromDirectoryWithPrefixAndOptions (\<lambda>m v. (merge v m, None))
       (Readable [FFile ''a.yaml'' (Inr [(''name'', AString ''x'')]),
                  FFile ''b.json'' (Inr [(''port'', AInt 1)])]) [] False []
     = ([(''a'', AStringMap [(''name'', AString ''x'')]),
         (''b'', AStringMap [(''port'', AInt 1)])], [])"
  "traverseNestedMap [(''a'', AStringMap [(''name'', AString ''x'')]),
         (''b'', AStringMap [(''port'', AInt 1)])] ''a.name'' = Some (AString ''x'')"
  by (simp_all add: Ext_a_yaml Ext_b_json traverseNestedMap_def map_index_def)

text \<open>
  C2, at the directory of the spec's example, loaded by \<open>Loader.LoadFromDirectory\<close> into an
  empty provider: the loader points the provider at \<open>a.yaml\<close> and reads it, and hands the
  tree of \<open>b.json\<close> to \<open>MergeConfigMap\<close> as it is. The settings are then \<open>name\<close> and
  \<open>port\<close> at the top level; \<open>a.name\<close> and \<open>b.port\<close> are not found, and \<open>port\<close> is.
\<close>

theorem loader_directory_load_no_namespace:
  "Loader_LoadFromDirectory recording_ops example_os (Some []) ''conf''
     = (Some [Call_SetConfigFile ''conf/a.yaml'', Call_ReadInConfig,
              Call_MergeConfigMap [(''port'', AInt 1)]], None)
   \<and> Loader_LoadFromDirectory (tree_provider_ops example_os) example_os
       (Some \<lparr>config_file = [], config_tree = []\<rparr>) ''conf''
     = (Some \<lparr>config_file = ''conf/a.yaml'',
               config_tree = [(''name'', AString ''x''), (''port'', AInt 1)]\<rparr>, None)
   \<and> Getter_Get example_conversions
         (NewGetter [(''name'', AString ''x''), (''port'', AInt 1)]) ''a.name'' KeyType_String
       = Some (Inl ErrKeyNotFound)
   \<and> Getter_Get example_conversions
         (NewGetter [(''name'', AString ''x''), (''port'', AInt 1)]) ''b.port'' KeyType_Int
       = Some (Inl ErrKeyNotFound)
   \<and> Getter_Get example_conversions
         (NewGetter [(''name'', AString ''x''), (''port'', AInt 1)]) ''port'' KeyType_Int
       = Some (Inr (AInt 1))"
  using key_types_known
  by (simp add: Loader_records_calls Loader_builds_tree Getter_Get_def flat_tree_no_namespace
      example_conversions_def)

section \<open>Values that viper holds\<close>

text \<open>
  \<open>Config.Set\<close> and \<open>Config.IsSet\<close> are \<open>viper.Set\<close> and \<open>viper.IsSet\<close>, and \<open>Config.Get\<close>
  asks \<open>viper.Get\<close> first: a value that viper returns for a key is returned unchanged, and
  the typed getter of the value's own type returns it.
\<close>

lemma wrapper_returns_viper_value:
  "vGet c key = AString s \<Longrightarrow> Get c key = Some (AString s) \<and> GetString c key = Some s"
  "vGet c key = AInt i \<Longrightarrow> Get c key = Some (AInt i) \<and> GetInt c key = Some i"
  "vGet c key = ABool b \<Longrightarrow> Get c key = Some (ABool b) \<and> GetBool c key = Some b"
  by (simp_all add: Get_def GetString_def GetInt_def GetBool_def getTypedValue_def)

end
